theory Spec2Isabelle
  imports Complex_Main "HOL-Library.Sublist" "HOL-Library.AList" "HOL-Library.Product_Lexorder"
begin

section \<open>Orchestrator of the backend tree (backend/app/services/bot\_service.py)\<close>

text \<open>
  The enum \<^verbatim>\<open>BotStatus\<close>; each member is written \<^verbatim>\<open>BotStatus_MEMBER\<close>
  because the two trees of the repository reuse the member names.
\<close>

datatype BotStatus =
    BotStatus_STOPPED | BotStatus_STARTING | BotStatus_RUNNING
  | BotStatus_PAUSED | BotStatus_STOPPING | BotStatus_ERROR

text \<open>
  The payload of an emitted event.  The source passes a dict (or, for
  \<^verbatim>\<open>status_changed\<close>, the object returned by \<^verbatim>\<open>get_status()\<close>); only its
  shape is kept.
\<close>

datatype payload =
    NoData
  | DeviceData "string option"
  | ErrorData string
  | StatusData
  | GameStateData

record event =
  ev_type :: string
  ev_timestamp :: nat
  ev_data :: payload

text \<open>The fields of \<^verbatim>\<open>BotConfig\<close> that the orchestrator reads.\<close>

record BotConfig =
  max_errors :: int
  restart_on_error :: bool
  screenshot_on_error :: bool

text \<open>
  \<^verbatim>\<open>BotService\<close> together with the \<^verbatim>\<open>Bot\<close> device handle it owns
  (\<^verbatim>\<open>bot.connected\<close>, \<^verbatim>\<open>bot.device_serial\<close>).  \<^verbatim>\<open>main_task\<close> says
  that \<^verbatim>\<open>_main_task\<close> exists and is not done.  Times are seconds on a clock
  that the caller supplies.
\<close>

record BotService =
  status :: BotStatus
  config :: BotConfig
  running :: bool
  paused :: bool
  main_task :: bool
  error_count :: int
  total_errors :: int
  total_runtime :: nat
  logs :: "event list"
  start_time :: "nat option"
  in_game :: bool
  connected :: bool
  device_serial :: "string option"

text \<open>A result dict \<^verbatim>\<open>{"success": ..., "message": ...}\<close>; the messages are
  paraphrased in ASCII.\<close>

record result =
  success :: bool
  message :: string

definition failure :: "string \<Rightarrow> result" where
  "failure m = \<lparr>success = False, message = m\<rparr>"

definition succeeded :: "string \<Rightarrow> result" where
  "succeeded m = \<lparr>success = True, message = m\<rparr>"

text \<open>
  \<^verbatim>\<open>_emit_event\<close>: the event is appended to \<^verbatim>\<open>self.logs\<close>, then the log is
  cut to its last 1000 entries.  The callbacks run afterwards with their
  exceptions caught; they are outside the model.
\<close>

definition emit_event :: "nat \<Rightarrow> string \<Rightarrow> payload \<Rightarrow> BotService \<Rightarrow> BotService" where
  "emit_event now event_type data s =
     (let event = \<lparr>ev_type = event_type, ev_timestamp = now, ev_data = data\<rparr>;
          logs1 = logs s @ [event]
      in if length logs1 > 1000
         then s\<lparr>logs := drop (length logs1 - 1000) logs1\<rparr>
         else s\<lparr>logs := logs1\<rparr>)"

text \<open>
  What the device does during \<^verbatim>\<open>start\<close>: whether \<^verbatim>\<open>bot.connect_device()\<close>
  finds a device (and its serial) and whether \<^verbatim>\<open>bot.start_app()\<close> succeeds.
\<close>

record device_env =
  connect_device :: "string option"
  start_app :: bool

definition start :: "device_env \<Rightarrow> nat \<Rightarrow> BotService \<Rightarrow> result \<times> BotService" where
  "start env now s =
     (if status s = BotStatus_RUNNING \<or> status s = BotStatus_STARTING
      then (failure ''already running or starting'', s)
      else
        let s1 = s\<lparr>status := BotStatus_STARTING\<rparr> in
        if \<not> connected s1 \<and> connect_device env = None
        then (failure ''could not connect to a device'', s1)
        else
          let s2 = (if connected s1 then s1
                    else s1\<lparr>connected := True, device_serial := connect_device env\<rparr>) in
          if \<not> start_app env
          then (failure ''could not start the application'', s2)
          else
            let s3 = s2\<lparr>start_time := Some now, error_count := 0, running := True,
                         paused := False, status := BotStatus_RUNNING, main_task := True\<rparr>
            in (succeeded ''bot started'',
                emit_event now ''bot_started'' (DeviceData (device_serial s3)) s3))"

text \<open>
  \<^verbatim>\<open>stop\<close>.  Cancelling a live main task runs the \<^verbatim>\<open>finally\<close> block of
  \<^verbatim>\<open>_main_loop\<close>, which sets the status to stopped and emits
  \<^verbatim>\<open>status_changed\<close>.
\<close>

definition stop :: "nat \<Rightarrow> BotService \<Rightarrow> result \<times> BotService" where
  "stop now s =
     (if status s = BotStatus_STOPPED
      then (failure ''already stopped'', s)
      else
        let s1 = s\<lparr>status := BotStatus_STOPPING, running := False, paused := False\<rparr>;
            s2 = (if main_task s1
                  then emit_event now ''status_changed'' StatusData
                         (s1\<lparr>status := BotStatus_STOPPED, main_task := False\<rparr>)
                  else s1);
            s3 = s2\<lparr>connected := False, device_serial := None\<rparr>;
            s4 = (case start_time s3 of
                    None \<Rightarrow> s3
                  | Some t \<Rightarrow> s3\<lparr>total_runtime := total_runtime s3 + (now - t)\<rparr>);
            s5 = s4\<lparr>status := BotStatus_STOPPED, in_game := False\<rparr>
        in (succeeded ''bot stopped'', emit_event now ''bot_stopped'' NoData s5))"

definition toggle_pause :: "nat \<Rightarrow> BotService \<Rightarrow> result \<times> BotService" where
  "toggle_pause now s =
     (if status s \<noteq> BotStatus_RUNNING \<and> \<not> paused s
      then (failure ''bot is not running'', s)
      else
        let s1 = s\<lparr>paused := \<not> paused s\<rparr>;
            s2 = s1\<lparr>status := (if paused s1 then BotStatus_PAUSED else BotStatus_RUNNING)\<rparr>
        in (succeeded (if paused s2 then ''bot paused'' else ''bot resumed''),
            emit_event now (if paused s2 then ''bot_paused'' else ''bot_resumed'') NoData s2))"

text \<open>
  \<^verbatim>\<open>_handle_error\<close>.  No method of the class calls it.  The screenshot it
  may take changes nothing in the service.
\<close>

definition handle_error :: "device_env \<Rightarrow> nat \<Rightarrow> BotService \<Rightarrow> BotService" where
  "handle_error env now s =
     (let s1 = s\<lparr>error_count := error_count s + 1, total_errors := total_errors s + 1\<rparr>
      in if restart_on_error (config s1) \<and> error_count s1 \<ge> 3
         then snd (start env now (snd (stop now s1)))
         else s1)"

text \<open>
  \<^verbatim>\<open>_analyze_game_state\<close> catches its own exceptions; when none occurs it
  emits \<^verbatim>\<open>game_state_changed\<close> and otherwise nothing.  Whether it got that
  far is given.
\<close>

definition analyze_game_state :: "nat \<Rightarrow> bool \<Rightarrow> BotService \<Rightarrow> BotService" where
  "analyze_game_state now analysed s =
     (if analysed then emit_event now ''game_state_changed'' GameStateData s else s)"

text \<open>
  One pass through the body of the \<^verbatim>\<open>while self._running\<close> loop of
  \<^verbatim>\<open>_main_loop\<close>, described by what happened in it: the reconnection
  failed, no screenshot came back, the pass ran to its end, or an exception
  reached the handler of the loop.  The calls after the screenshot catch their
  own exceptions, so the exception comes from the last statement of the pass,
  the sleep, after the analysis.  \<^verbatim>\<open>_update_stats\<close> never reaches its
  \<^verbatim>\<open>stats_updated\<close>: it raises before, inside its own \<^verbatim>\<open>try\<close>, on the
  difference of a time and a string or on awaiting the dict of \<^verbatim>\<open>get_stats\<close>.
\<close>

datatype cycle =
    Reconnect_failed
  | No_screenshot
  | Cycle_done bool
  | Cycle_raised bool string

definition loop_body :: "nat \<Rightarrow> cycle \<Rightarrow> BotService \<Rightarrow> BotService" where
  "loop_body now c s =
     (if paused s then s
      else case c of
          Reconnect_failed \<Rightarrow> s
        | No_screenshot \<Rightarrow> s
        | Cycle_done analysed \<Rightarrow> analyze_game_state now analysed s
        | Cycle_raised analysed e \<Rightarrow>
            emit_event now ''error_occurred'' (ErrorData e)
              (analyze_game_state now analysed s))"

text \<open>The loop over a finite run of passes; it leaves as soon as
  \<^verbatim>\<open>_running\<close> is false.  The result says whether the loop has left.\<close>

fun while_running :: "nat \<Rightarrow> cycle list \<Rightarrow> BotService \<Rightarrow> bool \<times> BotService" where
  "while_running now [] s = (\<not> running s, s)"
| "while_running now (c # cs) s =
     (if running s then while_running now cs (loop_body now c s) else (True, s))"

text \<open>\<^verbatim>\<open>_main_loop\<close>: the prologue, the loop, and the \<^verbatim>\<open>finally\<close> block
  once the loop has left.\<close>

definition main_loop :: "nat \<Rightarrow> cycle list \<Rightarrow> BotService \<Rightarrow> BotService" where
  "main_loop now cs s =
     (let s1 = emit_event now ''status_changed'' StatusData (s\<lparr>status := BotStatus_RUNNING\<rparr>);
          (left, s2) = while_running now cs s1
      in if left
         then emit_event now ''status_changed'' StatusData
                (s2\<lparr>status := BotStatus_STOPPED, main_task := False\<rparr>)
         else s2)"

text \<open>A freshly constructed service (\<^verbatim>\<open>BotService.__init__\<close>).\<close>

definition initial_service :: BotService where
  "initial_service =
     \<lparr>status = BotStatus_STOPPED,
      config = \<lparr>max_errors = 5, restart_on_error = True, screenshot_on_error = True\<rparr>,
      running = False, paused = False, main_task = False, error_count = 0,
      total_errors = 0, total_runtime = 0, logs = [], start_time = None,
      in_game = False, connected = False, device_serial = None\<rparr>"


section \<open>Orchestrator of the api tree (api/services/bot\_service.py)\<close>

datatype BotState =
    BotState_STOPPED | BotState_STARTING | BotState_RUNNING
  | BotState_PAUSED | BotState_STOPPING | BotState_ERROR

text \<open>The exceptions that the api tree raises to its callers.\<close>

datatype exn = ValueError string | RuntimeError string

text \<open>The pydantic model \<^verbatim>\<open>BotStatus\<close> that \<^verbatim>\<open>get_status\<close> returns (the
  fields that the lifecycle operations set).\<close>

record StatusReport =
  rep_state :: BotState
  rep_uptime :: "nat option"
  rep_last_action :: "string option"
  rep_last_action_time :: "nat option"
  rep_error_message :: "string option"
  rep_connected_device :: "string option"

text \<open>
  The api \<^verbatim>\<open>BotService\<close>.  \<^verbatim>\<open>stop_event\<close> and \<^verbatim>\<open>pause_event\<close> are the
  two \<^verbatim>\<open>asyncio.Event\<close> gates (true when set); \<^verbatim>\<open>bot_task\<close> says that the
  loop task exists and is not done.
\<close>

record ApiBotService =
  state :: BotState
  session_start :: "nat option"
  last_action :: "string option"
  last_action_time :: "nat option"
  error_message :: "string option"
  connected_device :: "string option"
  stop_event :: bool
  pause_event :: bool
  bot_task :: bool
  session_runtime :: nat

definition get_status :: "nat \<Rightarrow> ApiBotService \<Rightarrow> StatusReport" where
  "get_status now s =
     \<lparr>rep_state = state s,
      rep_uptime =
        (case session_start s of
           Some t \<Rightarrow>
             if state s = BotState_RUNNING \<or> state s = BotState_PAUSED
             then Some (now - t) else None
         | None \<Rightarrow> None),
      rep_last_action = last_action s,
      rep_last_action_time = last_action_time s,
      rep_error_message = error_message s,
      rep_connected_device = connected_device s\<rparr>"

text \<open>\<^verbatim>\<open>stop_bot\<close>; the loop task is taken to end within the grace period or
  on cancellation.\<close>

definition stop_bot :: "nat \<Rightarrow> ApiBotService \<Rightarrow> (exn + StatusReport) \<times> ApiBotService" where
  "stop_bot now s =
     (if state s = BotState_STOPPED
      then (Inr (get_status now s), s)
      else
        let s1 = s\<lparr>state := BotState_STOPPING, stop_event := True, bot_task := False\<rparr>;
            s2 = (case session_start s1 of
                    None \<Rightarrow> s1
                  | Some t \<Rightarrow> s1\<lparr>session_runtime := session_runtime s1 + (now - t)\<rparr>);
            s3 = s2\<lparr>state := BotState_STOPPED, session_start := None,
                     last_action := Some ''Bot stopped'', last_action_time := Some now\<rparr>
        in (Inr (get_status now s3), s3))"

definition pause_bot :: "nat \<Rightarrow> ApiBotService \<Rightarrow> (exn + StatusReport) \<times> ApiBotService" where
  "pause_bot now s =
     (if state s \<noteq> BotState_RUNNING
      then (Inl (ValueError ''Bot is not running''), s)
      else
        let s1 = s\<lparr>state := BotState_PAUSED, pause_event := False,
                     last_action := Some ''Bot paused'', last_action_time := Some now\<rparr>
        in (Inr (get_status now s1), s1))"

definition resume_bot :: "nat \<Rightarrow> ApiBotService \<Rightarrow> (exn + StatusReport) \<times> ApiBotService" where
  "resume_bot now s =
     (if state s \<noteq> BotState_PAUSED
      then (Inl (ValueError ''Bot is not paused''), s)
      else
        let s1 = s\<lparr>state := BotState_RUNNING, pause_event := True,
                     last_action := Some ''Bot resumed'', last_action_time := Some now\<rparr>
        in (Inr (get_status now s1), s1))"

text \<open>A freshly constructed api service.\<close>

definition initial_api_service :: ApiBotService where
  "initial_api_service =
     \<lparr>state = BotState_STOPPED, session_start = None, last_action = None,
      last_action_time = None, error_message = None, connected_device = None,
      stop_event = False, pause_event = False, bot_task = False, session_runtime = 0\<rparr>"

section \<open>Strings as Python splits them\<close>

text \<open>The ASCII characters that \<^verbatim>\<open>str.split()\<close> and \<^verbatim>\<open>str.strip()\<close> treat as
  white space: codes 9 to 13, 28 to 32.\<close>

definition isspace :: "char \<Rightarrow> bool" where
  "isspace c = (let n = of_char c :: nat in (9 \<le> n \<and> n \<le> 13) \<or> (28 \<le> n \<and> n \<le> 32))"

definition strip :: "string \<Rightarrow> string" where
  "strip s = rev (dropWhile isspace (rev (dropWhile isspace s)))"

text \<open>\<^verbatim>\<open>s.split()\<close>: the maximal runs of characters that are not white space.\<close>

fun split_acc :: "string \<Rightarrow> string \<Rightarrow> string list" where
  "split_acc w [] = (if w = [] then [] else [rev w])"
| "split_acc w (c # cs) =
     (if isspace c
      then (if w = [] then split_acc [] cs else rev w # split_acc [] cs)
      else split_acc (c # w) cs)"

definition split :: "string \<Rightarrow> string list" where
  "split s = split_acc [] s"

text \<open>\<^verbatim>\<open>s.split(sep)\<close> for a separator of one character: always at least one
  piece, empty pieces kept.\<close>

fun split_on_acc :: "char \<Rightarrow> string \<Rightarrow> string \<Rightarrow> string list" where
  "split_on_acc sep w [] = [rev w]"
| "split_on_acc sep w (c # cs) =
     (if c = sep then rev w # split_on_acc sep [] cs else split_on_acc sep (c # w) cs)"

definition split_on :: "char \<Rightarrow> string \<Rightarrow> string list" where
  "split_on sep s = split_on_acc sep [] s"

text \<open>\<^verbatim>\<open>sub in s\<close> on strings is \<^const>\<open>sublist\<close>; \<^verbatim>\<open>s.count(c)\<close> for one
  character is \<^const>\<open>count_list\<close>.\<close>

section \<open>Device registry of the api tree (api/services/device\_service.py)\<close>

datatype DeviceStatus =
    DeviceStatus_DISCONNECTED | DeviceStatus_CONNECTING | DeviceStatus_CONNECTED
  | DeviceStatus_UNAUTHORIZED | DeviceStatus_ERROR

datatype ConnectionType =
    ConnectionType_USB | ConnectionType_WIFI | ConnectionType_EMULATOR

record DeviceInfo =
  id :: string
  name :: string
  model :: string
  android_version :: string
  api_level :: int
  architecture :: string
  dev_status :: DeviceStatus
  connection_type :: ConnectionType
  battery_level :: "int option"
  is_charging :: "bool option"
  screen_resolution :: "string option"
  screen_density :: "int option"
  total_memory :: "int option"
  available_memory :: "int option"
  last_seen :: "nat option"
  rush_royale_installed :: bool
  rush_royale_version :: "string option"

text \<open>
  What the bridge answers to the queries of \<^verbatim>\<open>_update_device_details\<close> for
  one device.  Each helper of the source catches its own exceptions, so the
  answers are plain values; \<^verbatim>\<open>sdk\<close> is \<^verbatim>\<open>int(props.get("ro.build.version.sdk", "0"))\<close>,
  \<^const>\<open>None\<close> when that conversion raises.
\<close>

record replies =
  props :: "string \<Rightarrow> string option"
  sdk :: "int option"
  battery :: "int option \<times> bool option"
  memory :: "int option \<times> int option"
  screen :: "string option \<times> int option"
  app_installed :: bool
  app_version :: "string option"

definition prop_or :: "(string \<Rightarrow> string option) \<Rightarrow> string \<Rightarrow> string \<Rightarrow> string" where
  "prop_or ps k d = (case ps k of Some v \<Rightarrow> v | None \<Rightarrow> d)"

text \<open>\<^verbatim>\<open>_update_device_details\<close>: an exception (here the failed conversion of
  the sdk level) is caught and leaves the fields assigned before it.\<close>

definition update_device_details :: "replies \<Rightarrow> DeviceInfo \<Rightarrow> DeviceInfo" where
  "update_device_details r device =
     (let d1 = device\<lparr>name := prop_or (props r) ''ro.product.model'' (id device),
                       model := prop_or (props r) ''ro.product.model'' ''Unknown'',
                       android_version := prop_or (props r) ''ro.build.version.release'' ''Unknown''\<rparr>
      in case sdk r of
           None \<Rightarrow> d1
         | Some level \<Rightarrow>
             let d2 = d1\<lparr>api_level := level,
                         architecture := prop_or (props r) ''ro.product.cpu.abi'' ''Unknown'',
                         battery_level := fst (battery r), is_charging := snd (battery r),
                         total_memory := fst (memory r), available_memory := snd (memory r),
                         screen_resolution := fst (screen r), screen_density := snd (screen r),
                         rush_royale_installed := app_installed r\<rparr>
             in if rush_royale_installed d2
                then d2\<lparr>rush_royale_version := app_version r\<rparr>
                else d2)"

text \<open>The dict \<^verbatim>\<open>status_map\<close> with its default.\<close>

definition status_map :: "string \<Rightarrow> DeviceStatus" where
  "status_map status_str =
     (if status_str = ''device'' then DeviceStatus_CONNECTED
      else if status_str = ''offline'' then DeviceStatus_DISCONNECTED
      else if status_str = ''unauthorized'' then DeviceStatus_UNAUTHORIZED
      else if status_str = ''no permissions'' then DeviceStatus_ERROR
      else DeviceStatus_ERROR)"

definition parse_device_line ::
    "(string \<Rightarrow> replies) \<Rightarrow> nat \<Rightarrow> string \<Rightarrow> DeviceInfo option" where
  "parse_device_line adb now line =
     (case split line of
        device_id # status_str # rest \<Rightarrow>
          let status = status_map status_str;
              connection_type =
                (if sublist '':'' device_id \<and> count_list device_id (CHR ''.'') = 3
                 then ConnectionType_WIFI
                 else if sublist ''emulator'' device_id then ConnectionType_EMULATOR
                 else ConnectionType_USB);
              device_info =
                \<lparr>id = device_id, name = device_id, model = ''Unknown'',
                 android_version = ''Unknown'', api_level = 0, architecture = ''Unknown'',
                 dev_status = status, connection_type = connection_type,
                 battery_level = None, is_charging = None, screen_resolution = None,
                 screen_density = None, total_memory = None, available_memory = None,
                 last_seen = Some now, rush_royale_installed = False,
                 rush_royale_version = None\<rparr>
          in Some (if status = DeviceStatus_CONNECTED
                   then update_device_details (adb device_id) device_info
                   else device_info)
      | _ \<Rightarrow> None)"

text \<open>The outcome of the enumeration command \<^verbatim>\<open>adb devices -l\<close>: it raised, or
  it completed with a return code and its standard output.\<close>

datatype adb_run = Adb_raised | Adb_completed int string

text \<open>
  The registry \<^verbatim>\<open>self.devices\<close> is a dict; it is kept as an association list
  in insertion order.  The loop of \<^verbatim>\<open>refresh_devices\<close> over the lines:
  the parsed records so far and the registry.
\<close>

type_synonym registry = "(string \<times> DeviceInfo) list"

fun scan_lines ::
    "(string \<Rightarrow> replies) \<Rightarrow> nat \<Rightarrow> string list \<Rightarrow> DeviceInfo list \<times> registry
       \<Rightarrow> DeviceInfo list \<times> registry" where
  "scan_lines adb now [] acc = acc"
| "scan_lines adb now (line # lines) (devices, reg) =
     (if strip line = [] then scan_lines adb now lines (devices, reg)
      else case parse_device_line adb now line of
             None \<Rightarrow> scan_lines adb now lines (devices, reg)
           | Some device_info \<Rightarrow>
               scan_lines adb now lines
                 (devices @ [device_info], AList.update (id device_info) device_info reg))"

text \<open>\<^verbatim>\<open>refresh_devices\<close>: the returned list and the new registry.\<close>

definition refresh_devices ::
    "bool \<Rightarrow> (string \<Rightarrow> replies) \<Rightarrow> nat \<Rightarrow> adb_run \<Rightarrow> registry
       \<Rightarrow> DeviceInfo list \<times> registry" where
  "refresh_devices adb_path adb now run reg =
     (if \<not> adb_path then ([], reg)
      else case run of
          Adb_raised \<Rightarrow> ([], reg)
        | Adb_completed returncode stdout \<Rightarrow>
            if returncode \<noteq> 0 then ([], reg)
            else
              let (devices, reg1) =
                    scan_lines adb now (tl (split_on (CHR 0x0A) (strip stdout))) ([], reg);
                  current_device_ids = map id devices
              in (devices, filter (\<lambda>(device_id, d). device_id \<in> set current_device_ids) reg1))"

section \<open>Device registry of the backend tree (backend/app/services/device\_service.py)\<close>

text \<open>The backend tree has enums of its own under the names of the api tree;
  they are written \<^verbatim>\<open>DevStatus\<close> and \<^verbatim>\<open>ConnType\<close> here.\<close>

datatype DevStatus =
    DevStatus_DISCONNECTED | DevStatus_CONNECTED | DevStatus_UNAUTHORIZED
  | DevStatus_OFFLINE | DevStatus_UNKNOWN

datatype ConnType = ConnType_USB | ConnType_WIFI | ConnType_UNKNOWN

record DevInfo =
  device_id :: string
  dev_name :: string
  dev_model :: string
  dev_android_version :: string
  resolution :: "int \<times> int"
  status_of :: DevStatus
  conn_type :: ConnType
  is_connected :: bool
  seen :: nat

text \<open>
  What \<^verbatim>\<open>adb_device.shell\<close> answers in \<^verbatim>\<open>_get_device_info\<close>: the reported
  physical size is absent, a pair of integers, or text whose conversion
  raises; the whole exchange raises, or gives the model and the release.
\<close>

datatype wm_size = Wm_absent | Wm_size int int | Wm_malformed

datatype shell = Shell_raised | Shell_replied string string wm_size

record AdbDevice =
  serial :: string
  shell_of :: shell

record Device =
  info :: DevInfo
  adb_device :: "AdbDevice option"

definition unknown_info :: "string \<Rightarrow> nat \<Rightarrow> DevInfo" where
  "unknown_info dev now =
     \<lparr>device_id = dev, dev_name = ''Device '' @ take 8 dev, dev_model = ''Unknown'',
      dev_android_version = ''Unknown'', resolution = (1080, 1920),
      status_of = DevStatus_UNKNOWN, conn_type = ConnType_UNKNOWN,
      is_connected = False, seen = now\<rparr>"

definition get_device_info :: "nat \<Rightarrow> AdbDevice \<Rightarrow> DevInfo" where
  "get_device_info now a =
     (let dev = serial a in
      case shell_of a of
        Shell_raised \<Rightarrow> unknown_info dev now
      | Shell_replied m v wm \<Rightarrow>
          (case wm of
             Wm_malformed \<Rightarrow> unknown_info dev now
           | _ \<Rightarrow>
               \<lparr>device_id = dev,
                dev_name = (if strip m = [] then ''Device '' @ take 8 dev else strip m),
                dev_model = (if strip m = [] then ''Unknown'' else strip m),
                dev_android_version = (if strip v = [] then ''Unknown'' else strip v),
                resolution = (case wm of Wm_size w h \<Rightarrow> (w, h) | _ \<Rightarrow> (1080, 1920)),
                status_of = DevStatus_CONNECTED,
                conn_type =
                  (if sublist '':'' dev \<and> count_list dev (CHR ''.'') = 3
                   then ConnType_WIFI else ConnType_USB),
                is_connected = True, seen = now\<rparr>))"

text \<open>The outcome of reaching the bridge client and of \<^verbatim>\<open>adb_client.devices()\<close>.\<close>

datatype client = Client_unavailable | Client_raised | Client_devices "AdbDevice list"

record DeviceService =
  devices :: "(string \<times> Device) list"
  last_scan_time :: int
  scan_interval :: int

text \<open>The first loop of \<^verbatim>\<open>scan_devices\<close>: every enumerated device is
  updated in, or added to, the registry.\<close>

fun enumerate_into :: "nat \<Rightarrow> AdbDevice list \<Rightarrow> (string \<times> Device) list \<Rightarrow> (string \<times> Device) list" where
  "enumerate_into now [] reg = reg"
| "enumerate_into now (a # as) reg =
     enumerate_into now as
       (AList.update (serial a) \<lparr>info = get_device_info now a, adb_device = Some a\<rparr> reg)"

text \<open>The second loop, under the comment that announces the removal of the
  disconnected devices: each record that was not enumerated is marked.\<close>

definition mark_disconnected :: "string list \<Rightarrow> (string \<times> Device) list \<Rightarrow> (string \<times> Device) list" where
  "mark_disconnected current_device_ids reg =
     map (\<lambda>(k, d).
            if k \<in> set current_device_ids then (k, d)
            else (k, d\<lparr>info := (info d)\<lparr>is_connected := False,
                                           status_of := DevStatus_DISCONNECTED\<rparr>,
                        adb_device := None\<rparr>))
         reg"

definition scan_devices :: "nat \<Rightarrow> client \<Rightarrow> DeviceService \<Rightarrow> DevInfo list \<times> DeviceService" where
  "scan_devices now c svc =
     (if int now - last_scan_time svc < scan_interval svc
      then (map (info \<circ> snd) (devices svc), svc)
      else
        let svc1 = svc\<lparr>last_scan_time := int now\<rparr> in
        case c of
          Client_unavailable \<Rightarrow> ([], svc1)
        | Client_raised \<Rightarrow> (map (info \<circ> snd) (devices svc1), svc1)
        | Client_devices adb_devices \<Rightarrow>
            let reg1 = enumerate_into now adb_devices (devices svc1);
                reg2 = mark_disconnected (map serial adb_devices) reg1
            in (map (info \<circ> snd) reg2, svc1\<lparr>devices := reg2\<rparr>))"

text \<open>A freshly constructed backend device service.\<close>

definition initial_device_service :: DeviceService where
  "initial_device_service = \<lparr>devices = [], last_scan_time = 0, scan_interval = 2\<rparr>"

section \<open>Perception (backend/app/services/vision\_service.py)\<close>

subsection \<open>Images and slices\<close>

text \<open>
  An image decoded with \<^verbatim>\<open>IMREAD_COLOR\<close> is an array of rows of pixels, each
  pixel three bytes in the order blue, green, red.
\<close>

type_synonym pixel = "nat \<times> nat \<times> nat"
type_synonym image = "pixel list list"

definition height :: "image \<Rightarrow> nat" where
  "height img = length img"

definition width :: "image \<Rightarrow> nat" where
  "width img = (case img of [] \<Rightarrow> 0 | r # _ \<Rightarrow> length r)"

text \<open>\<^verbatim>\<open>image.size\<close>: the number of bytes.\<close>

definition size_of :: "image \<Rightarrow> nat" where
  "size_of img = height img * width img * 3"

text \<open>
  A slice bound as Python reads it: a negative bound counts from the end, and
  every bound is clamped to the length.
\<close>

definition bound :: "int \<Rightarrow> nat \<Rightarrow> nat" where
  "bound i n = (if i < 0 then nat (max 0 (i + int n)) else min (nat i) n)"

definition slice :: "int \<Rightarrow> int \<Rightarrow> 'a list \<Rightarrow> 'a list" where
  "slice a b xs = take (bound b (length xs) - bound a (length xs)) (drop (bound a (length xs)) xs)"

text \<open>\<^verbatim>\<open>img[y0:y1, x0:x1]\<close>.\<close>

definition region :: "int \<Rightarrow> int \<Rightarrow> int \<Rightarrow> int \<Rightarrow> image \<Rightarrow> image" where
  "region y0 y1 x0 x1 img = map (slice x0 x1) (slice y0 y1 img)"

subsection \<open>The libraries\<close>

text \<open>
  What OpenCV and the classifier compute is taken as given: whether the
  library was imported, the decoder (base64 and \<^verbatim>\<open>cv2.imdecode\<close>; \<^const>\<open>None\<close>
  when either rejects its input), the grey value and the hue, saturation and
  value of a pixel, the best normalised correlation of a cell with a template
  resized to it, and the prediction of the rank model (label and probability;
  \<^const>\<open>None\<close> when it raises).
\<close>

record cv2 =
  CV2_AVAILABLE :: bool
  imdecode :: "string \<Rightarrow> image option"
  BGR2GRAY :: "pixel \<Rightarrow> nat"
  BGR2HSV :: "pixel \<Rightarrow> nat \<times> nat \<times> nat"
  matchTemplate :: "image \<Rightarrow> image \<Rightarrow> real"
  predict_proba :: "image \<Rightarrow> (nat \<times> real) option"

datatype vision_error = ImportError | DecodeError | Cv2Error | IndexError | ZeroDivisionError

text \<open>\<^verbatim>\<open>_base64_to_image\<close>: a \<^verbatim>\<open>data:\<close> prefix up to the first comma is dropped
  (the second piece of the split is kept).\<close>

definition base64_to_image :: "cv2 \<Rightarrow> string \<Rightarrow> vision_error + image" where
  "base64_to_image cv base64_str =
     (if \<not> CV2_AVAILABLE cv then Inl ImportError
      else
        let s = (if CHR '','' \<in> set base64_str
                 then split_on (CHR '','') base64_str ! 1 else base64_str)
        in case imdecode cv s of
             None \<Rightarrow> Inl DecodeError
           | Some img \<Rightarrow> Inr img)"

subsection \<open>The service\<close>

record Template =
  tpl_image :: image
  threshold :: real
  category :: string

record grid_config =
  rows :: int
  cols :: int
  cell_width :: int
  cell_height :: int
  grid_start_x :: int
  grid_start_y :: int
  cell_spacing :: int

record mana_config =
  mana_bar_x :: int
  mana_bar_y :: int
  mana_bar_width :: int
  mana_bar_height :: int
  mana_color_range :: "(nat \<times> nat \<times> nat) \<times> (nat \<times> nat \<times> nat)"

text \<open>A colour of the reference table or of a signature: three integers, red,
  green, blue.\<close>

type_synonym color = "int \<times> int \<times> int"

text \<open>
  \<^verbatim>\<open>VisionService\<close>: the templates in the order of their insertion, whether a
  rank model is loaded, the reference table (two lists, labels and colours)
  and the two configurations.  The run statistics are left out: no result
  depends on them.
\<close>

record VisionService =
  templates :: "(string \<times> Template) list"
  rank_model :: bool
  ref_units :: "string list"
  ref_colors :: "color list"
  grid :: grid_config
  mana :: mana_config

subsection \<open>Dominant colours\<close>

text \<open>The position of the first element equal to \<open>v\<close>
  (\<^verbatim>\<open>np.where(counts == v)[0][0]\<close>).\<close>

definition first_index :: "'a list \<Rightarrow> 'a \<Rightarrow> nat" where
  "first_index xs v = length (takeWhile (\<lambda>x. x \<noteq> v) xs)"

text \<open>\<^verbatim>\<open>np.unique(..., axis=0, return_counts=True)\<close>: the distinct rows in
  lexicographic order, and how often each occurs.\<close>

definition unique :: "color list \<Rightarrow> color list" where
  "unique xs = sort (remdups xs)"

definition counts_of :: "color list \<Rightarrow> nat list" where
  "counts_of xs = map (count_list xs) (unique xs)"

text \<open>The pixels of an image as rows of red, green, blue, each channel rounded
  down to a multiple of 20.\<close>

definition flat_img_round :: "image \<Rightarrow> color list" where
  "flat_img_round img =
     map (\<lambda>(b, g, r). (int (r div 20 * 20), int (g div 20 * 20), int (b div 20 * 20)))
         (concat img)"

text \<open>The part of the image that \<^verbatim>\<open>_get_color\<close> looks at.\<close>

definition cropped :: "image \<Rightarrow> bool \<Rightarrow> image" where
  "cropped img crop =
     (if crop
      then
        let h = int (height img); w = int (width img);
            crop_size = min 90 (min (h - 30) (w - 34));
            start_y = max 0 15; start_x = max 0 17
        in region start_y (start_y + crop_size) start_x (start_x + crop_size) img
      else img)"

text \<open>
  \<^verbatim>\<open>_get_color\<close>.  \<^verbatim>\<open>cv2.cvtColor\<close> rejects an empty array, which is the
  error here.  The loop fills the first entries of a table of five zero
  colours.
\<close>

definition get_color :: "image \<Rightarrow> bool \<Rightarrow> vision_error + color list" where
  "get_color img crop =
     (let unit_img = cropped img crop in
      if size_of unit_img = 0 then Inl Cv2Error
      else
        let flat = flat_img_round unit_img;
            uniq = unique flat;
            counts = counts_of flat;
            colors = replicate 5 (0, 0, 0)
        in if length uniq < 10 then Inr colors
           else
             let sorted_count = rev (sort counts)
             in Inr (fold (\<lambda>i cs. cs[i := uniq ! first_index counts (sorted_count ! i)])
                          [0 ..< min 5 (length sorted_count)] colors))"

subsection \<open>Matching a unit by colour\<close>

definition sqdist :: "color \<Rightarrow> color \<Rightarrow> int" where
  "sqdist a b =
     (case (a, b) of
        ((r1, g1, b1), (r2, g2, b2)) \<Rightarrow> (r1 - r2)\<^sup>2 + (g1 - g2)\<^sup>2 + (b1 - b2)\<^sup>2)"

text \<open>The row \<^verbatim>\<open>mse\<close> of squared distances of one colour to every reference.\<close>

definition mse_of :: "color list \<Rightarrow> color \<Rightarrow> int list" where
  "mse_of refs c = map (\<lambda>r. sqdist r c) refs"

text \<open>\<^verbatim>\<open>mse.min()\<close> and \<^verbatim>\<open>mse.argmin()\<close> of a row that is not empty.\<close>

definition min_of :: "int list \<Rightarrow> int" where
  "min_of xs = fold min (tl xs) (hd xs)"

definition argmin :: "int list \<Rightarrow> nat" where
  "argmin xs = first_index xs (min_of xs)"

text \<open>The loop of \<^verbatim>\<open>_match_unit\<close> over the colours of the signature: it
  returns at the first colour that has a reference within 2000.\<close>

fun match_colors :: "VisionService \<Rightarrow> color list \<Rightarrow> vision_error + string \<times> real" where
  "match_colors svc [] = Inr (''empty.png'', 2001)"
| "match_colors svc (c # cs) =
     (let mse = mse_of (ref_colors svc) c; min_mse = min_of mse in
      if min_mse \<le> 2000
      then (let best_match_idx = argmin mse in
            if best_match_idx < length (ref_units svc)
            then Inr (ref_units svc ! best_match_idx, real_of_int min_mse)
            else Inl IndexError)
      else match_colors svc cs)"

definition match_unit :: "VisionService \<Rightarrow> image \<Rightarrow> vision_error + string \<times> real" where
  "match_unit svc img =
     (if ref_colors svc = [] \<or> ref_units svc = [] then Inr (''empty.png'', 2001)
      else case get_color img True of
             Inl e \<Rightarrow> Inl e
           | Inr unit_colors \<Rightarrow> match_colors svc unit_colors)"

text \<open>\<^verbatim>\<open>_match_rank\<close>: no model, or an exception, gives rank 0.\<close>

definition match_rank :: "cv2 \<Rightarrow> VisionService \<Rightarrow> image \<Rightarrow> nat \<times> real" where
  "match_rank cv svc img =
     (if \<not> rank_model svc then (0, 0)
      else case predict_proba cv img of None \<Rightarrow> (0, 0) | Some p \<Rightarrow> p)"

subsection \<open>Names\<close>

text \<open>\<^verbatim>\<open>s.replace(sub, '')\<close> for a pattern that is not empty.\<close>

fun remove_all :: "string \<Rightarrow> string \<Rightarrow> string" where
  "remove_all sub [] = []"
| "remove_all sub (c # cs) =
     (if sub \<noteq> [] \<and> prefix sub (c # cs)
      then remove_all sub (drop (length sub) (c # cs))
      else c # remove_all sub cs)"

text \<open>A natural number in decimal.\<close>

fun digits :: "nat \<Rightarrow> nat \<Rightarrow> string" where
  "digits 0 n = []"
| "digits (Suc fuel) n =
     (if n < 10 then [char_of (48 + n)]
      else digits fuel (n div 10) @ [char_of (48 + n mod 10)])"

definition str :: "nat \<Rightarrow> string" where
  "str n = digits (Suc n) n"

subsection \<open>One cell\<close>

text \<open>\<^verbatim>\<open>np.mean\<close> of the grey image of a cell that is not empty.\<close>

definition mean_brightness :: "cv2 \<Rightarrow> image \<Rightarrow> real" where
  "mean_brightness cv img =
     real (sum_list (map (BGR2GRAY cv) (concat img))) / real (length (concat img))"

text \<open>The name under which a colour match is reported.\<close>

definition unit_name :: "string \<Rightarrow> nat \<times> real \<Rightarrow> string" where
  "unit_name unit_type rk =
     (case rk of (rank, rank_confidence) \<Rightarrow>
        if rank > 0 \<and> rank_confidence > 0.5
        then remove_all ''.png'' unit_type @ ''_rank_'' @ str rank
        else remove_all ''.png'' unit_type)"

text \<open>One pass of the loop over the templates: the best match so far and its
  score.\<close>

definition template_step ::
    "cv2 \<Rightarrow> image \<Rightarrow> string \<times> Template \<Rightarrow> string option \<times> real \<Rightarrow> string option \<times> real" where
  "template_step cv cell_image t best =
     (case (t, best) of
        ((template_name, template), (best_match, best_confidence)) \<Rightarrow>
          if category template = ''card''
          then (let max_val = matchTemplate cv cell_image (tpl_image template) in
                if max_val > best_confidence \<and> max_val > threshold template
                then (Some template_name, max_val)
                else (best_match, best_confidence))
          else (best_match, best_confidence))"

definition best_template ::
    "cv2 \<Rightarrow> image \<Rightarrow> (string \<times> Template) list \<Rightarrow> string option \<times> real" where
  "best_template cv cell_image ts = fold (template_step cv cell_image) ts (None, 0)"

text \<open>The fall-back of \<^verbatim>\<open>_analyze_cell\<close>: a template above its threshold, or
  the label \<^verbatim>\<open>unknown\<close> with confidence 0.5.  An empty name counts as no
  match, as \<^verbatim>\<open>if best_match\<close> reads it.\<close>

definition template_fallback :: "cv2 \<Rightarrow> VisionService \<Rightarrow> image \<Rightarrow> bool \<times> string option \<times> real" where
  "template_fallback cv svc cell_image =
     (case best_template cv cell_image (templates svc) of
        (Some n, best_confidence) \<Rightarrow>
          if n \<noteq> [] then (True, Some n, best_confidence) else (True, Some ''unknown'', 0.5)
      | (None, _) \<Rightarrow> (True, Some ''unknown'', 0.5))"

definition analyze_cell ::
    "cv2 \<Rightarrow> VisionService \<Rightarrow> image \<Rightarrow> vision_error + bool \<times> string option \<times> real" where
  "analyze_cell cv svc cell_image =
     (if size_of cell_image = 0 then Inr (False, None, 0)
      else if mean_brightness cv cell_image < 30 \<or> mean_brightness cv cell_image > 220
      then Inr (False, None, 0.1)
      else if ref_colors svc \<noteq> [] \<and> ref_units svc \<noteq> []
      then (case match_unit svc cell_image of
              Inl e \<Rightarrow> Inl e
            | Inr (unit_type, color_confidence) \<Rightarrow>
                if unit_type \<noteq> ''empty.png'' \<and> color_confidence \<le> 2000
                then Inr (True,
                          Some (unit_name unit_type (match_rank cv svc cell_image)),
                          max 0.1 (1 - color_confidence / 2000))
                else Inr (template_fallback cv svc cell_image))
      else Inr (template_fallback cv svc cell_image))"

subsection \<open>The grid\<close>

text \<open>\<^verbatim>\<open>GridCell\<close>; its fields \<^verbatim>\<open>x\<close>, \<^verbatim>\<open>y\<close>, \<^verbatim>\<open>width\<close>, \<^verbatim>\<open>height\<close> carry the
  prefix \<^verbatim>\<open>cell_\<close>.\<close>

record GridCell =
  cell_x :: int
  cell_y :: int
  cell_w :: int
  cell_h :: int
  occupied :: bool
  card_type :: "string option"
  confidence :: real

text \<open>\<^verbatim>\<open>GridAnalysis\<close>; its field \<^verbatim>\<open>confidence\<close> is \<^verbatim>\<open>grid_confidence\<close> here.\<close>

record GridAnalysis =
  cells :: "GridCell list"
  grid_width :: int
  grid_height :: int
  total_cells :: nat
  occupied_cells :: nat
  empty_cells :: nat
  detected_cards :: "(string \<times> nat) list"
  grid_confidence :: real

definition cell_at :: "cv2 \<Rightarrow> VisionService \<Rightarrow> image \<Rightarrow> int \<Rightarrow> int \<Rightarrow> vision_error + GridCell" where
  "cell_at cv svc img row col =
     (let g = grid svc;
          x = grid_start_x g + col * (cell_width g + cell_spacing g);
          y = grid_start_y g + row * (cell_height g + cell_spacing g);
          cell_image = region y (y + cell_height g) x (x + cell_width g) img
      in case analyze_cell cv svc cell_image of
           Inl e \<Rightarrow> Inl e
         | Inr (occ, ct, conf) \<Rightarrow>
             Inr \<lparr>cell_x = x, cell_y = y, cell_w = cell_width g, cell_h = cell_height g,
                  occupied = occ, card_type = ct, confidence = conf\<rparr>)"

text \<open>The results of a run of steps, up to the first exception.\<close>

fun collect :: "('e + 'a) list \<Rightarrow> 'e + 'a list" where
  "collect [] = Inr []"
| "collect (Inl e # rs) = Inl e"
| "collect (Inr v # rs) = (case collect rs of Inl e \<Rightarrow> Inl e | Inr vs \<Rightarrow> Inr (v # vs))"

text \<open>The two nested loops, rows outside, columns inside.\<close>

definition grid_cells :: "cv2 \<Rightarrow> VisionService \<Rightarrow> image \<Rightarrow> vision_error + GridCell list" where
  "grid_cells cv svc img =
     collect (concat (map (\<lambda>row. map (\<lambda>col. cell_at cv svc img (int row) (int col))
                                       [0 ..< nat (cols (grid svc))])
                          [0 ..< nat (rows (grid svc))]))"

text \<open>The dict \<^verbatim>\<open>detected_cards\<close>: occupied cells with a name that is not
  empty, counted by name.\<close>

definition count_card :: "GridCell \<Rightarrow> (string \<times> nat) list \<Rightarrow> (string \<times> nat) list" where
  "count_card c d =
     (case card_type c of
        Some n \<Rightarrow>
          if occupied c \<and> n \<noteq> []
          then AList.update n (case map_of d n of None \<Rightarrow> 1 | Some k \<Rightarrow> k + 1) d
          else d
      | None \<Rightarrow> d)"

definition empty_analysis :: GridAnalysis where
  "empty_analysis =
     \<lparr>cells = [], grid_width = 0, grid_height = 0, total_cells = 0, occupied_cells = 0,
      empty_cells = 0, detected_cards = [], grid_confidence = 0\<rparr>"

text \<open>\<^verbatim>\<open>analyze_grid\<close>: every exception raised inside the \<^verbatim>\<open>try\<close> ends in the
  empty analysis.\<close>

definition analyze_grid :: "cv2 \<Rightarrow> VisionService \<Rightarrow> string \<Rightarrow> GridAnalysis" where
  "analyze_grid cv svc image_base64 =
     (case base64_to_image cv image_base64 of
        Inl e \<Rightarrow> empty_analysis
      | Inr img \<Rightarrow>
          (case grid_cells cv svc img of
             Inl e \<Rightarrow> empty_analysis
           | Inr cs \<Rightarrow>
               \<lparr>cells = cs,
                grid_width = cols (grid svc),
                grid_height = rows (grid svc),
                total_cells = length cs,
                occupied_cells = length (filter occupied cs),
                empty_cells = length cs - length (filter occupied cs),
                detected_cards = fold count_card cs [],
                grid_confidence =
                  (if cs \<noteq> [] then sum_list (map confidence cs) / real (length cs) else 0)\<rparr>))"

subsection \<open>Mana\<close>

text \<open>\<^verbatim>\<open>ManaAnalysis\<close>; its field \<^verbatim>\<open>confidence\<close> is \<^verbatim>\<open>mana_confidence\<close> here.\<close>

record ManaAnalysis =
  current_mana :: int
  max_mana :: int
  mana_percentage :: real
  mana_confidence :: real

text \<open>\<^verbatim>\<open>cv2.inRange\<close> on one pixel.\<close>

definition inRange :: "(nat \<times> nat \<times> nat) \<times> (nat \<times> nat \<times> nat) \<Rightarrow> nat \<times> nat \<times> nat \<Rightarrow> bool" where
  "inRange bounds v =
     (case (bounds, v) of
        (((l1, l2, l3), (u1, u2, u3)), (v1, v2, v3)) \<Rightarrow>
          l1 \<le> v1 \<and> v1 \<le> u1 \<and> l2 \<le> v2 \<and> v2 \<le> u2 \<and> l3 \<le> v3 \<and> v3 \<le> u3)"

definition mana_region :: "VisionService \<Rightarrow> image \<Rightarrow> image" where
  "mana_region svc img =
     (let m = mana svc
      in region (mana_bar_y m) (mana_bar_y m + mana_bar_height m)
                (mana_bar_x m) (mana_bar_x m + mana_bar_width m) img)"

text \<open>\<^verbatim>\<open>cv2.countNonZero(mask)\<close>.\<close>

definition mana_pixels :: "cv2 \<Rightarrow> VisionService \<Rightarrow> image \<Rightarrow> nat" where
  "mana_pixels cv svc img =
     length (filter (\<lambda>p. inRange (mana_color_range (mana svc)) (BGR2HSV cv p))
                    (concat (mana_region svc img)))"

definition total_pixels :: "VisionService \<Rightarrow> int" where
  "total_pixels svc = mana_bar_width (mana svc) * mana_bar_height (mana svc)"

text \<open>\<^verbatim>\<open>int(x)\<close> on a float: towards zero.\<close>

definition to_int :: "real \<Rightarrow> int" where
  "to_int r = (if r \<ge> 0 then \<lfloor>r\<rfloor> else \<lceil>r\<rceil>)"

definition zero_mana :: ManaAnalysis where
  "zero_mana = \<lparr>current_mana = 0, max_mana = 10, mana_percentage = 0, mana_confidence = 0\<rparr>"

text \<open>
  \<^verbatim>\<open>analyze_mana\<close>.  The exceptions inside the \<^verbatim>\<open>try\<close> are the failed
  decoding, the colour conversion of an empty region and the division by a
  zero pixel count.  The arithmetic is on floats in the source and on reals
  here.
\<close>

definition analyze_mana :: "cv2 \<Rightarrow> VisionService \<Rightarrow> string \<Rightarrow> ManaAnalysis" where
  "analyze_mana cv svc image_base64 =
     (case base64_to_image cv image_base64 of
        Inl e \<Rightarrow> zero_mana
      | Inr img \<Rightarrow>
          if size_of (mana_region svc img) = 0 then zero_mana
          else if total_pixels svc = 0 then zero_mana
          else
            let percentage =
                  real (mana_pixels cv svc img) / real_of_int (total_pixels svc) * 100;
                maximum = 10
            in \<lparr>current_mana = to_int (percentage / 100 * real_of_int maximum),
                max_mana = maximum,
                mana_percentage = percentage,
                mana_confidence = min (percentage / 50) 1\<rparr>)"

text \<open>The service as \<^verbatim>\<open>__init__\<close> builds it.\<close>

definition initial_vision :: VisionService where
  "initial_vision =
     \<lparr>templates = [], rank_model = False, ref_units = [], ref_colors = [],
      grid = \<lparr>rows = 4, cols = 4, cell_width = 80, cell_height = 80, grid_start_x = 100,
               grid_start_y = 200, cell_spacing = 10\<rparr>,
      mana = \<lparr>mana_bar_x = 50, mana_bar_y = 50, mana_bar_width = 200, mana_bar_height = 30,
               mana_color_range = ((100, 150, 200), (120, 255, 255))\<rparr>\<rparr>"

section \<open>Concrete scenarios\<close>

text \<open>A device that connects and starts the game, and a service started on it
  with \<^verbatim>\<open>restart_on_error = True\<close> and \<^verbatim>\<open>max_errors = 3\<close>.\<close>

definition emulator_env :: device_env where
  "emulator_env = \<lparr>connect_device = Some ''emulator-5554'', start_app = True\<rparr>"

definition started_service :: BotService where
  "started_service =
     snd (start emulator_env 100
            (initial_service\<lparr>config := \<lparr>max_errors = 3, restart_on_error = True,
                                          screenshot_on_error = True\<rparr>\<rparr>))"

text \<open>A bridge whose devices answer none of the queries for details, and an
  emulator as the backend tree sees it.\<close>

definition quiet_adb :: "string \<Rightarrow> replies" where
  "quiet_adb dev =
     \<lparr>props = (\<lambda>k. None), sdk = Some 0, battery = (None, None), memory = (None, None),
      screen = (None, None), app_installed = False, app_version = None\<rparr>"

definition emulator_device :: AdbDevice where
  "emulator_device =
     \<lparr>serial = ''emulator-5554'', shell_of = Shell_replied ''sdk_gphone64'' ''13'' Wm_absent\<rparr>"

text \<open>A phone on USB that answers the shell.\<close>

definition usb_phone :: AdbDevice where
  "usb_phone = \<lparr>serial = ''R58M123'', shell_of = Shell_replied ''Pixel'' ''13'' Wm_absent\<rparr>"

text \<open>
  A stand-in for the libraries in the scenarios below: the usual luma formula
  for the grey value, the hue, saturation and value of the one saturated blue
  that the scenarios use (anything else is taken as black), a decoder that
  knows three payloads, no template score and no rank model.
\<close>

definition luma :: "pixel \<Rightarrow> nat" where
  "luma p = (case p of (b, g, r) \<Rightarrow> (299 * r + 587 * g + 114 * b + 500) div 1000)"

text \<open>A screen of 100 rows of 300 pixels; in every row the pixels 50 to 129
  are blue, so that 80 of the 200 pixels of the mana bar match.\<close>

definition mana_row :: "pixel list" where
  "mana_row = replicate 50 (0, 0, 0) @ replicate 80 (255, 64, 0) @ replicate 170 (0, 0, 0)"

definition mana_screen :: image where
  "mana_screen = replicate 100 mana_row"

text \<open>A screen of only 60 rows of 100 pixels: the mana bar of the service,
  30 rows of 200 pixels from row 50 and column 50, is cut to 10 rows of 50
  pixels of it, of which the first 20 in every row are blue.\<close>

definition clipped_screen :: image where
  "clipped_screen =
     replicate 60 (replicate 50 (0, 0, 0) @ replicate 20 (255, 64, 0) @ replicate 30 (0, 0, 0))"

text \<open>A small board of 6 rows of 9 pixels, grey on the left and black on the
  right, and a service whose grid has 2 rows and 3 columns of cells of 2 by 2
  pixels on it.\<close>

definition board :: image where
  "board = replicate 6 (replicate 4 (100, 100, 100) @ replicate 5 (0, 0, 0))"

definition small_vision :: VisionService where
  "small_vision =
     initial_vision\<lparr>grid := \<lparr>rows = 2, cols = 3, cell_width = 2, cell_height = 2,
                               grid_start_x = 1, grid_start_y = 1, cell_spacing = 1\<rparr>\<rparr>"

definition scenario_cv :: cv2 where
  "scenario_cv =
     \<lparr>CV2_AVAILABLE = True,
      imdecode = (\<lambda>s. if s = ''mana40'' then Some mana_screen
                       else if s = ''clipped'' then Some clipped_screen
                       else if s = ''board'' then Some board else None),
      BGR2GRAY = luma,
      BGR2HSV = (\<lambda>p. if p = (255, 64, 0) then (112, 255, 255) else (0, 0, 0)),
      matchTemplate = (\<lambda>c t. 0),
      predict_proba = (\<lambda>c. None)\<rparr>"

text \<open>
  Cells for the colour signature.  A cell of 34 rows of 38 grey pixels, whose
  cropped part is the 4 by 4 square in its middle; the same cell with sixteen
  chosen pixels in that square (four grey, three red, nine others, all
  different after rounding); and a cell of 20 by 20 pixels, too small for the
  crop.  The service knows two units by their colours.
\<close>

definition grey :: pixel where
  "grey = (100, 100, 100)"

definition unit_cell :: image where
  "unit_cell =
     replicate 15 (replicate 38 grey)
     @ map (\<lambda>ps. replicate 17 grey @ ps @ replicate 17 grey)
         [[grey, grey, grey, grey],
          [(40, 40, 200), (40, 40, 200), (40, 40, 200), (0, 0, 0)],
          [(0, 0, 20), (0, 0, 40), (0, 0, 60), (0, 20, 0)],
          [(0, 40, 0), (0, 60, 0), (20, 0, 0), (40, 0, 0)]]
     @ replicate 15 (replicate 38 grey)"

definition unit_vision :: VisionService where
  "unit_vision =
     initial_vision\<lparr>ref_units := [''archer.png'', ''mage.png''],
                     ref_colors := [(130, 120, 110), (200, 40, 40)]\<rparr>"

definition tiny_cell :: image where
  "tiny_cell = replicate 20 (replicate 20 grey)"

definition plain_cell :: image where
  "plain_cell = replicate 34 (replicate 38 grey)"

section \<open>Properties\<close>

subsection \<open>The event log\<close>

lemma emit_event_logs:
  "logs (emit_event now event_type data s) =
     drop (length (logs s) + 1 - 1000)
       (logs s @ [\<lparr>ev_type = event_type, ev_timestamp = now, ev_data = data\<rparr>])"
  by (simp add: emit_event_def Let_def)

text \<open>
  Claim C9.  After every call of \<^verbatim>\<open>_emit_event\<close> the log holds at most 1000
  entries, whatever it held before; it is the emitted event appended to the
  old log, with only the oldest entries dropped, so the emitted event is its
  last entry and the retained entries are the most recent ones.
\<close>

theorem emit_event_log_bounded:
  "length (logs (emit_event now event_type data s)) \<le> 1000
   \<and> logs (emit_event now event_type data s) =
       drop (length (logs s @ [\<lparr>ev_type = event_type, ev_timestamp = now, ev_data = data\<rparr>]) - 1000)
         (logs s @ [\<lparr>ev_type = event_type, ev_timestamp = now, ev_data = data\<rparr>])
   \<and> last (logs (emit_event now event_type data s)) =
       \<lparr>ev_type = event_type, ev_timestamp = now, ev_data = data\<rparr>
   \<and> suffix (logs (emit_event now event_type data s))
       (logs s @ [\<lparr>ev_type = event_type, ev_timestamp = now, ev_data = data\<rparr>])"
  by (simp add: emit_event_logs suffix_drop)

subsection \<open>Lifecycle operations from an incompatible state\<close>

text \<open>
  Claim C2, as stated, asks for a structured failure instead of an exception.
  In the api tree \<^verbatim>\<open>pause_bot\<close> and \<^verbatim>\<open>resume_bot\<close> on a stopped bot raise
  \<^verbatim>\<open>ValueError\<close>.
\<close>

theorem pause_resume_raise_when_stopped:
  "fst (pause_bot 0 initial_api_service) = Inl (ValueError ''Bot is not running'')
   \<and> fst (resume_bot 0 initial_api_service) = Inl (ValueError ''Bot is not paused'')"
  by (simp add: pause_bot_def resume_bot_def initial_api_service_def)

text \<open>
  Claim C2, amended.  From an incompatible state every one of the operations
  leaves the service exactly as it was.  In the api tree \<^verbatim>\<open>pause_bot\<close> outside
  Running and \<^verbatim>\<open>resume_bot\<close> outside Paused reject by raising \<^verbatim>\<open>ValueError\<close>,
  and \<^verbatim>\<open>stop_bot\<close> on a Stopped bot returns the current status.  In the backend
  tree \<^verbatim>\<open>stop\<close> on a Stopped bot returns a result with \<^verbatim>\<open>success = False\<close>, and so
  does \<^verbatim>\<open>toggle_pause\<close> when the bot is neither Running nor paused.
\<close>

theorem incompatible_state_rejected:
  "(state a \<noteq> BotState_RUNNING \<longrightarrow>
      pause_bot now a = (Inl (ValueError ''Bot is not running''), a))
   \<and> (state a \<noteq> BotState_PAUSED \<longrightarrow>
      resume_bot now a = (Inl (ValueError ''Bot is not paused''), a))
   \<and> (state a = BotState_STOPPED \<longrightarrow> stop_bot now a = (Inr (get_status now a), a))
   \<and> (status s = BotStatus_STOPPED \<longrightarrow>
      stop now s = (\<lparr>success = False, message = ''already stopped''\<rparr>, s))
   \<and> (status s \<noteq> BotStatus_RUNNING \<and> \<not> paused s \<longrightarrow>
      toggle_pause now s = (\<lparr>success = False, message = ''bot is not running''\<rparr>, s))"
  by (simp add: pause_bot_def resume_bot_def stop_bot_def stop_def toggle_pause_def failure_def)

theorem incompatible_state_rejected_witness:
  "state initial_api_service \<noteq> BotState_RUNNING
   \<and> state initial_api_service \<noteq> BotState_PAUSED
   \<and> state initial_api_service = BotState_STOPPED
   \<and> status initial_service = BotStatus_STOPPED
   \<and> \<not> paused initial_service
   \<and> pause_bot 7 initial_api_service =
       (Inl (ValueError ''Bot is not running''), initial_api_service)
   \<and> resume_bot 7 initial_api_service =
       (Inl (ValueError ''Bot is not paused''), initial_api_service)
   \<and> stop_bot 7 initial_api_service =
       (Inr (get_status 7 initial_api_service), initial_api_service)
   \<and> stop 7 initial_service =
       (\<lparr>success = False, message = ''already stopped''\<rparr>, initial_service)
   \<and> toggle_pause 7 initial_service =
       (\<lparr>success = False, message = ''bot is not running''\<rparr>, initial_service)"
  using incompatible_state_rejected [of initial_api_service 7 initial_service]
  by (simp add: initial_api_service_def initial_service_def)

text \<open>In the backend tree pausing and resuming are one operation: on a running
  bot it pauses, on a paused bot it resumes.\<close>

lemma toggle_pause_toggles:
  "(let s1 = snd (toggle_pause 101 started_service); s2 = snd (toggle_pause 102 s1)
    in status s1 = BotStatus_PAUSED \<and> paused s1
       \<and> status s2 = BotStatus_RUNNING \<and> \<not> paused s2)"
  by (simp add: started_service_def start_def initial_service_def emulator_env_def Let_def
        emit_event_def toggle_pause_def)

subsection \<open>Errors in the main loop\<close>

lemma emit_event_keeps:
  "error_count (emit_event n t d s) = error_count s"
  "running (emit_event n t d s) = running s"
  "paused (emit_event n t d s) = paused s"
  by (simp_all add: emit_event_def Let_def)

lemma loop_body_error_count: "error_count (loop_body now c s) = error_count s"
  by (cases c) (simp_all add: loop_body_def analyze_game_state_def emit_event_keeps)

lemma while_running_error_count:
  "error_count (snd (while_running now cs s)) = error_count s"
  by (induction cs arbitrary: s) (simp_all add: loop_body_error_count)

text \<open>Whatever happens in its passes, the main loop leaves the error counter
  as it found it.\<close>

lemma main_loop_error_count: "error_count (main_loop now cs s) = error_count s"
  using while_running_error_count
     [of now cs "emit_event now ''status_changed'' StatusData (s\<lparr>status := BotStatus_RUNNING\<rparr>)"]
  by (auto simp: main_loop_def Let_def emit_event_keeps split: prod.split)

text \<open>
  Claim C3 on the code.  With \<^verbatim>\<open>restart_on_error\<close> set and \<^verbatim>\<open>max_errors = 3\<close>,
  three passes of the main loop that end in an exception leave the error
  counter at 0 and the bot running; the log gains the \<^verbatim>\<open>status_changed\<close> of the
  prologue and three \<^verbatim>\<open>error_occurred\<close> events (each after the
  \<^verbatim>\<open>game_state_changed\<close> of its pass, when the analysis got that far), and
  neither a \<^verbatim>\<open>bot_stopped\<close> nor a second \<^verbatim>\<open>bot_started\<close>: there is no restart.
\<close>

theorem main_loop_three_errors_no_restart:
  "(let s = main_loop 101 [Cycle_raised False ''e1'', Cycle_raised False ''e2'',
                           Cycle_raised False ''e3''] started_service
    in restart_on_error (config s) \<and> max_errors (config s) = 3
       \<and> error_count s = 0 \<and> status s = BotStatus_RUNNING \<and> running s
       \<and> map ev_type (logs s) =
           [''bot_started'', ''status_changed'', ''error_occurred'', ''error_occurred'',
            ''error_occurred''])
   \<and> (let s = main_loop 101 [Cycle_raised True ''e1'', Cycle_raised True ''e2'',
                             Cycle_raised True ''e3''] started_service
      in restart_on_error (config s) \<and> max_errors (config s) = 3
         \<and> error_count s = 0 \<and> status s = BotStatus_RUNNING \<and> running s
         \<and> map ev_type (logs s) =
             [''bot_started'', ''status_changed'',
              ''game_state_changed'', ''error_occurred'',
              ''game_state_changed'', ''error_occurred'',
              ''game_state_changed'', ''error_occurred''])"
  by (simp add: started_service_def start_def initial_service_def emulator_env_def Let_def
        emit_event_def main_loop_def loop_body_def analyze_game_state_def)

text \<open>
  The method \<^verbatim>\<open>_handle_error\<close>, called three times in a row on the started
  service, does what the claim describes: nothing but counting at the first
  two errors, one stop followed by one start at the third.
\<close>

lemma handle_error_three_times:
  "(let s2 = handle_error emulator_env 102 (handle_error emulator_env 101 started_service);
        s3 = handle_error emulator_env 103 s2
    in error_count s2 = 2 \<and> map ev_type (logs s2) = [''bot_started'']
       \<and> status s3 = BotStatus_RUNNING
       \<and> map ev_type (logs s3) =
           [''bot_started'', ''status_changed'', ''bot_stopped'', ''bot_started''])"
  by (simp add: started_service_def start_def stop_def handle_error_def initial_service_def
        emulator_env_def Let_def emit_event_def)

subsection \<open>The device registry after a scan\<close>

lemma scan_lines_keys:
  "scan_lines adb now lines (ds, reg) = (ds', reg') \<Longrightarrow>
   set (map id ds) \<subseteq> fst ` set reg \<Longrightarrow> set (map id ds') \<subseteq> fst ` set reg'"
proof (induction lines arbitrary: ds reg)
  case Nil
  then show ?case by simp
next
  case (Cons line lines)
  show ?case
  proof (cases "strip line = []")
    case True
    with Cons show ?thesis by simp
  next
    case False
    show ?thesis
    proof (cases "parse_device_line adb now line")
      case None
      with False Cons show ?thesis by simp
    next
      case (Some d)
      have "set (map id (ds @ [d])) \<subseteq> fst ` set (AList.update (id d) d reg)"
        using Cons.prems(2) by (auto simp: AList.dom_update)
      moreover have "scan_lines adb now lines (ds @ [d], AList.update (id d) d reg) = (ds', reg')"
        using Cons.prems(1) False Some by simp
      ultimately show ?thesis using Cons.IH by blast
    qed
  qed
qed

text \<open>In the api tree a completed scan leaves exactly the enumerated ids as
  the keys of the registry.\<close>

lemma refresh_devices_prunes:
  assumes "refresh_devices True adb now (Adb_completed 0 out) reg = (ds, reg')"
  shows "fst ` set reg' = set (map id ds)"
proof -
  obtain ds1 reg1 where
    sl: "scan_lines adb now (tl (split_on (CHR 0x0A) (strip out))) ([], reg) = (ds1, reg1)"
    by (cases "scan_lines adb now (tl (split_on (CHR 0x0A) (strip out))) ([], reg)")
  from assms sl have ds: "ds = ds1"
    and r: "reg' = filter (\<lambda>(k, d). k \<in> set (map id ds1)) reg1"
    by (auto simp: refresh_devices_def)
  have sub: "set (map id ds1) \<subseteq> fst ` set reg1"
    using scan_lines_keys [OF sl] by simp
  show ?thesis unfolding r ds using sub by force
qed

lemma mark_disconnected_keys: "map fst (mark_disconnected ids reg) = map fst reg"
  by (induction reg) (auto simp: mark_disconnected_def)

lemma enumerate_into_keys: "fst ` set reg \<subseteq> fst ` set (enumerate_into now as reg)"
proof (induction as arbitrary: reg)
  case Nil
  show ?case by simp
next
  case (Cons a as)
  have "fst ` set reg \<subseteq>
        fst ` set (AList.update (serial a) \<lparr>info = get_device_info now a, adb_device = Some a\<rparr> reg)"
    by (auto simp: AList.dom_update)
  also have "\<dots> \<subseteq> fst ` set (enumerate_into now (a # as) reg)"
    using Cons.IH by simp
  finally show ?case .
qed

text \<open>In the backend tree no scan ever removes a key of the registry.\<close>

lemma scan_devices_keeps_keys:
  "fst ` set (devices svc) \<subseteq> fst ` set (devices (snd (scan_devices now c svc)))"
  using enumerate_into_keys [of "devices svc" now]
  by (cases c) (auto simp: scan_devices_def Let_def mark_disconnected_keys simp flip: set_map)

text \<open>
  Claim C5 on the code of the backend tree.  A phone is enumerated by a first
  scan; a second scan, ten seconds later, enumerates nothing.  The record of
  the phone is still in the registry, marked as disconnected.
\<close>

theorem scan_devices_keeps_unplugged_device:
  "(let svc1 = snd (scan_devices 10 (Client_devices [usb_phone]) initial_device_service);
        svc2 = snd (scan_devices 20 (Client_devices []) svc1)
    in map fst (devices svc1) = [''R58M123'']
       \<and> map fst (devices svc2) = [''R58M123'']
       \<and> map (status_of \<circ> info \<circ> snd) (devices svc2) = [DevStatus_DISCONNECTED])"
  by (simp add: scan_devices_def initial_device_service_def usb_phone_def Let_def
        mark_disconnected_def get_device_info_def)

subsection \<open>Parsing a line of the enumeration\<close>

lemma update_device_details_keeps:
  "connection_type (update_device_details r d) = connection_type d
   \<and> dev_status (update_device_details r d) = dev_status d
   \<and> id (update_device_details r d) = id d"
  by (simp add: update_device_details_def Let_def split: option.split)

lemma split_emulator_line: "split ''emulator-5554 device'' = [''emulator-5554'', ''device'']"
  by (simp add: split_def isspace_def)

lemma emulator_in_id: "sublist ''emulator'' ''emulator-5554''"
  by code_simp

lemma no_colon_in_id: "\<not> sublist '':'' ''emulator-5554''"
  by code_simp

lemma split_network_emulator_line:
  "split ''emulator-1.2.3.4:5555 device'' = [''emulator-1.2.3.4:5555'', ''device'']"
  by (simp add: split_def isspace_def)

lemma network_emulator_id:
  "sublist ''emulator'' ''emulator-1.2.3.4:5555''"
  "sublist '':'' ''emulator-1.2.3.4:5555''"
  "count_list ''emulator-1.2.3.4:5555'' (CHR ''.'') = 3"
  by code_simp+

text \<open>
  Claim C6, amended.  In the api tree a line of at least two tokens is parsed
  into a record with the first token as id and the status that the second
  token maps to, \<^verbatim>\<open>device\<close> mapping to Connected; the connection kind is
  Network when the id has a colon and exactly three dots, otherwise Emulator
  when the id contains \<^verbatim>\<open>emulator\<close>, otherwise USB.  So the line
  \<^verbatim>\<open>emulator-5554 device\<close> gives Emulator and Connected, whatever the device
  answers to the queries that follow.  The backend tree has no Emulator kind:
  for a device that answers the shell it reports Connected, and Network for
  an id with a colon and three dots, USB for every other id.
\<close>

theorem parse_device_line_kind_and_status:
  "(split line = dev # tok # rest \<longrightarrow>
      map_option (\<lambda>d. (id d, dev_status d, connection_type d))
         (parse_device_line adb now line)
       = Some (dev, status_map tok,
               if sublist '':'' dev \<and> count_list dev (CHR ''.'') = 3
               then ConnectionType_WIFI
               else if sublist ''emulator'' dev then ConnectionType_EMULATOR
               else ConnectionType_USB))
   \<and> status_map ''device'' = DeviceStatus_CONNECTED
   \<and> map_option (\<lambda>d. (id d, dev_status d, connection_type d))
         (parse_device_line adb now ''emulator-5554 device'')
       = Some (''emulator-5554'', DeviceStatus_CONNECTED, ConnectionType_EMULATOR)
   \<and> (shell_of a = Shell_replied m v wm \<and> wm \<noteq> Wm_malformed \<longrightarrow>
        status_of (get_device_info now a) = DevStatus_CONNECTED
        \<and> conn_type (get_device_info now a) =
            (if sublist '':'' (serial a) \<and> count_list (serial a) (CHR ''.'') = 3
             then ConnType_WIFI else ConnType_USB))"
proof (intro conjI impI)
  assume "split line = dev # tok # rest"
  then show "map_option (\<lambda>d. (id d, dev_status d, connection_type d))
         (parse_device_line adb now line)
       = Some (dev, status_map tok,
               if sublist '':'' dev \<and> count_list dev (CHR ''.'') = 3
               then ConnectionType_WIFI
               else if sublist ''emulator'' dev then ConnectionType_EMULATOR
               else ConnectionType_USB)"
    by (simp add: parse_device_line_def Let_def update_device_details_keeps)
next
  show "status_map ''device'' = DeviceStatus_CONNECTED"
    by (simp add: status_map_def)
next
  show "map_option (\<lambda>d. (id d, dev_status d, connection_type d))
         (parse_device_line adb now ''emulator-5554 device'')
       = Some (''emulator-5554'', DeviceStatus_CONNECTED, ConnectionType_EMULATOR)"
    by (simp add: parse_device_line_def split_emulator_line emulator_in_id no_colon_in_id
          status_map_def Let_def update_device_details_keeps)
next
  assume "shell_of a = Shell_replied m v wm \<and> wm \<noteq> Wm_malformed"
  then show "status_of (get_device_info now a) = DevStatus_CONNECTED"
    by (cases wm) (simp_all add: get_device_info_def Let_def)
next
  assume "shell_of a = Shell_replied m v wm \<and> wm \<noteq> Wm_malformed"
  then show "conn_type (get_device_info now a) =
            (if sublist '':'' (serial a) \<and> count_list (serial a) (CHR ''.'') = 3
             then ConnType_WIFI else ConnType_USB)"
    by (cases wm) (simp_all add: get_device_info_def Let_def)
qed

theorem parse_device_line_kind_and_status_witness:
  "split ''emulator-5554 device'' = ''emulator-5554'' # ''device'' # []
   \<and> shell_of emulator_device = Shell_replied ''sdk_gphone64'' ''13'' Wm_absent
   \<and> Wm_absent \<noteq> Wm_malformed
   \<and> map_option (\<lambda>d. (id d, dev_status d, connection_type d))
         (parse_device_line quiet_adb 7 ''emulator-5554 device'')
       = Some (''emulator-5554'', DeviceStatus_CONNECTED, ConnectionType_EMULATOR)
   \<and> status_of (get_device_info 7 emulator_device) = DevStatus_CONNECTED
   \<and> conn_type (get_device_info 7 emulator_device) = ConnType_USB"
proof -
  have sh: "shell_of emulator_device = Shell_replied ''sdk_gphone64'' ''13'' Wm_absent"
    and se: "serial emulator_device = ''emulator-5554''"
    by (simp_all add: emulator_device_def)
  show ?thesis
    using parse_device_line_kind_and_status
            [of "''emulator-5554 device''" "''emulator-5554''" "''device''" "[]" quiet_adb 7
                emulator_device "''sdk_gphone64''" "''13''" Wm_absent]
          split_emulator_line sh
    by (simp add: se no_colon_in_id)
qed

text \<open>
  Claim C6, as stated, maps every id that contains \<^verbatim>\<open>emulator\<close> to the
  Emulator kind, and cites both trees.  In the api tree the id
  \<^verbatim>\<open>emulator-1.2.3.4:5555\<close> has a colon and three dots and is a Network
  device; in the backend tree the device \<^verbatim>\<open>emulator-5554\<close> is a USB device.
\<close>

theorem emulator_id_not_always_emulator:
  "sublist ''emulator'' ''emulator-1.2.3.4:5555''
   \<and> map_option (\<lambda>d. (id d, dev_status d, connection_type d))
         (parse_device_line quiet_adb 7 ''emulator-1.2.3.4:5555 device'')
       = Some (''emulator-1.2.3.4:5555'', DeviceStatus_CONNECTED, ConnectionType_WIFI)
   \<and> serial emulator_device = ''emulator-5554''
   \<and> status_of (get_device_info 7 emulator_device) = DevStatus_CONNECTED
   \<and> conn_type (get_device_info 7 emulator_device) = ConnType_USB"
  by (simp add: parse_device_line_def split_network_emulator_line network_emulator_id
        status_map_def Let_def update_device_details_keeps emulator_device_def
        get_device_info_def no_colon_in_id)

subsection \<open>Images that do not decode\<close>

text \<open>
  Claim C7.  When the input does not decode (the library is missing, or the
  decoder rejects the payload), grid analysis returns the empty analysis, with
  no cells and confidence 0, and mana analysis returns mana 0, percentage 0
  and confidence 0.  Both are values: nothing is raised.
\<close>

theorem decode_failure_gives_empty_results:
  "base64_to_image cv s = Inl e \<Longrightarrow>
     analyze_grid cv svc s = empty_analysis \<and> cells (analyze_grid cv svc s) = []
     \<and> grid_confidence (analyze_grid cv svc s) = 0
     \<and> analyze_mana cv svc s = zero_mana
     \<and> current_mana (analyze_mana cv svc s) = 0
     \<and> mana_percentage (analyze_mana cv svc s) = 0
     \<and> mana_confidence (analyze_mana cv svc s) = 0"
  by (simp add: analyze_grid_def analyze_mana_def empty_analysis_def zero_mana_def)

lemma corrupt_payload: "base64_to_image scenario_cv ''corrupt'' = Inl DecodeError"
  by (simp add: base64_to_image_def scenario_cv_def)

theorem decode_failure_gives_empty_results_witness:
  "base64_to_image scenario_cv ''corrupt'' = Inl DecodeError
   \<and> cells (analyze_grid scenario_cv initial_vision ''corrupt'') = []
   \<and> grid_confidence (analyze_grid scenario_cv initial_vision ''corrupt'') = 0
   \<and> analyze_mana scenario_cv initial_vision ''corrupt'' = zero_mana"
  using decode_failure_gives_empty_results [OF corrupt_payload, of initial_vision]
    corrupt_payload
  by (simp add: empty_analysis_def zero_mana_def)

subsection \<open>Mana\<close>

lemma slice_same: "slice a a xs = []"
  by (simp add: slice_def)

lemma region_zero_height: "size_of (region y y x0 x1 img) = 0"
  by (simp add: region_def slice_same size_of_def height_def)

lemma width_region_zero: "width (region y0 y1 x x img) = 0"
  by (cases "slice y0 y1 img") (simp_all add: region_def width_def slice_same)

lemma region_zero_width: "size_of (region y0 y1 x x img) = 0"
  by (simp add: size_of_def width_region_zero)

text \<open>A mana region with pixels in it has a pixel count that is not zero.\<close>

lemma mana_region_total: "size_of (mana_region svc img) \<noteq> 0 \<Longrightarrow> total_pixels svc \<noteq> 0"
  unfolding mana_region_def total_pixels_def Let_def
  using region_zero_height region_zero_width
  by (metis add.right_neutral mult_eq_0_iff)

lemma length_concat_replicate: "length (concat (replicate n xs)) = n * length xs"
  by (induction n) simp_all

lemma width_replicate: "0 < n \<Longrightarrow> width (replicate n r) = length r"
  by (cases n) (simp_all add: width_def)

lemma slice_length:
  "0 \<le> a \<Longrightarrow> a \<le> b \<Longrightarrow> b \<le> int (length xs) \<Longrightarrow> length (slice a b xs) = nat (b - a)"
  by (simp add: slice_def bound_def)

lemma slice_subset: "set (slice a b xs) \<subseteq> set xs"
  unfolding slice_def by (meson order_trans set_take_subset set_drop_subset)

lemma length_concat_same:
  "\<forall>r \<in> set rs. length (f r) = k \<Longrightarrow> length (concat (map f rs)) = length rs * k"
  by (induction rs) simp_all

lemma region_pixels:
  assumes "0 \<le> y0" and "y0 \<le> y1" and "y1 \<le> int (length img)"
    and "0 \<le> x0" and "x0 \<le> x1" and "\<forall>r \<in> set img. x1 \<le> int (length r)"
  shows "length (concat (region y0 y1 x0 x1 img)) = nat (y1 - y0) * nat (x1 - x0)"
proof -
  have "\<forall>r \<in> set (slice y0 y1 img). length (slice x0 x1 r) = nat (x1 - x0)"
    using assms(4,5,6) slice_subset [of y0 y1 img] by (auto intro: slice_length)
  then have "length (concat (map (slice x0 x1) (slice y0 y1 img)))
      = length (slice y0 y1 img) * nat (x1 - x0)"
    by (rule length_concat_same)
  then show ?thesis
    using slice_length [OF assms(1,2,3)] by (simp add: region_def)
qed

text \<open>The region has as many pixels as the configured area whenever the bar
  lies inside the image.\<close>

lemma mana_region_inside:
  assumes "0 \<le> mana_bar_y (mana svc)" and "0 \<le> mana_bar_height (mana svc)"
    and "mana_bar_y (mana svc) + mana_bar_height (mana svc) \<le> int (length img)"
    and "0 \<le> mana_bar_x (mana svc)" and "0 \<le> mana_bar_width (mana svc)"
    and "\<forall>r \<in> set img. mana_bar_x (mana svc) + mana_bar_width (mana svc) \<le> int (length r)"
  shows "int (length (concat (mana_region svc img))) = total_pixels svc"
proof -
  have "length (concat (mana_region svc img))
      = nat (mana_bar_height (mana svc)) * nat (mana_bar_width (mana svc))"
    unfolding mana_region_def Let_def
    using region_pixels [of "mana_bar_y (mana svc)" "mana_bar_y (mana svc) + mana_bar_height (mana svc)"
        img "mana_bar_x (mana svc)" "mana_bar_x (mana svc) + mana_bar_width (mana svc)"] assms
    by simp
  then show ?thesis
    using assms(2,5) by (simp add: total_pixels_def mult.commute)
qed

text \<open>
  Claim C8, amended.  For an image that decodes and whose mana region is not
  empty: the maximum is the constant 10; the current mana is the number of
  matched pixels over the configured area of the bar (width times height),
  times the maximum, converted as \<^verbatim>\<open>int\<close> does; the percentage is that ratio
  times 100; the confidence is the percentage over 50, capped at 1.  When the
  region cut from the image has as many pixels as the configured area, that
  ratio is the matched fraction of the region, and a region matched at exactly
  40 percent gives a current mana of 4.
\<close>

theorem analyze_mana_linear:
  assumes "base64_to_image cv s = Inr img" and "size_of (mana_region svc img) \<noteq> 0"
  shows "max_mana (analyze_mana cv svc s) = 10
    \<and> current_mana (analyze_mana cv svc s) =
        to_int (real (mana_pixels cv svc img) / real_of_int (total_pixels svc)
                  * real_of_int (max_mana (analyze_mana cv svc s)))
    \<and> mana_percentage (analyze_mana cv svc s) =
        real (mana_pixels cv svc img) / real_of_int (total_pixels svc) * 100
    \<and> mana_confidence (analyze_mana cv svc s) =
        min (mana_percentage (analyze_mana cv svc s) / 50) 1
    \<and> (int (length (concat (mana_region svc img))) = total_pixels svc \<longrightarrow>
        current_mana (analyze_mana cv svc s) =
          to_int (real (mana_pixels cv svc img) / real (length (concat (mana_region svc img)))
                    * real_of_int (max_mana (analyze_mana cv svc s)))
        \<and> (real (mana_pixels cv svc img) / real (length (concat (mana_region svc img))) = 2 / 5
             \<longrightarrow> current_mana (analyze_mana cv svc s) = 4))"
proof -
  define f where "f = real (mana_pixels cv svc img) / real_of_int (total_pixels svc)"
  define g where "g = real (mana_pixels cv svc img) / real (length (concat (mana_region svc img)))"
  have t: "total_pixels svc \<noteq> 0"
    using assms(2) by (rule mana_region_total)
  have eq: "analyze_mana cv svc s =
      \<lparr>current_mana = to_int (f * 100 / 100 * real_of_int 10), max_mana = 10,
       mana_percentage = f * 100, mana_confidence = min (f * 100 / 50) 1\<rparr>"
    using assms t unfolding f_def analyze_mana_def Let_def by simp
  have a: "f * 100 / 100 * real_of_int 10 = f * 10"
    by simp
  have four: "to_int (f * 10) = 4" if "f = 2 / 5"
  proof -
    have "f * 10 = 4" unfolding that by simp
    show ?thesis unfolding \<open>f * 10 = 4\<close> by (simp add: to_int_def)
  qed
  have fg: "f = g" if "int (length (concat (mana_region svc img))) = total_pixels svc"
    unfolding f_def g_def that [symmetric] by simp
  show ?thesis
    unfolding f_def [symmetric] g_def [symmetric] eq a using four fg by auto
qed

lemma mana_payload: "base64_to_image scenario_cv ''mana40'' = Inr mana_screen"
  by (simp add: base64_to_image_def scenario_cv_def)

lemma mana_region_of_screen:
  "mana_region initial_vision mana_screen =
     replicate 30 (replicate 80 (255, 64, 0) @ replicate 120 (0, 0, 0))"
  by (simp add: mana_region_def initial_vision_def mana_screen_def mana_row_def region_def
        slice_def bound_def Let_def)

lemma mana_pixels_of_screen: "mana_pixels scenario_cv initial_vision mana_screen = 2400"
  unfolding mana_pixels_def mana_region_of_screen
  by (simp add: scenario_cv_def initial_vision_def inRange_def filter_concat
        length_concat_replicate)

lemma mana_region_of_screen_size: "size_of (mana_region initial_vision mana_screen) \<noteq> 0"
  unfolding mana_region_of_screen by (simp add: size_of_def height_def width_replicate)

lemma mana_region_of_screen_pixels:
  "length (concat (mana_region initial_vision mana_screen)) = 6000"
  unfolding mana_region_of_screen by (simp add: length_concat_replicate)

lemma total_pixels_initial: "total_pixels initial_vision = 6000"
  by (simp add: total_pixels_def initial_vision_def)

theorem analyze_mana_linear_witness:
  "base64_to_image scenario_cv ''mana40'' = Inr mana_screen
   \<and> size_of (mana_region initial_vision mana_screen) \<noteq> 0
   \<and> int (length (concat (mana_region initial_vision mana_screen)))
        = total_pixels initial_vision
   \<and> real (mana_pixels scenario_cv initial_vision mana_screen)
        / real (length (concat (mana_region initial_vision mana_screen))) = 2 / 5
   \<and> current_mana (analyze_mana scenario_cv initial_vision ''mana40'') = 4
   \<and> max_mana (analyze_mana scenario_cv initial_vision ''mana40'') = 10
   \<and> mana_percentage (analyze_mana scenario_cv initial_vision ''mana40'') = 40
   \<and> mana_confidence (analyze_mana scenario_cv initial_vision ''mana40'') = 4 / 5"
proof -
  have n: "int (length (concat (mana_region initial_vision mana_screen)))
        = total_pixels initial_vision"
    unfolding mana_region_of_screen_pixels total_pixels_initial by simp
  have f: "real (mana_pixels scenario_cv initial_vision mana_screen)
        / real (length (concat (mana_region initial_vision mana_screen))) = 2 / 5"
    unfolding mana_pixels_of_screen mana_region_of_screen_pixels by simp
  have p: "real (mana_pixels scenario_cv initial_vision mana_screen)
        / real_of_int (total_pixels initial_vision) * 100 = 40"
    unfolding mana_pixels_of_screen total_pixels_initial by simp
  note th = analyze_mana_linear [OF mana_payload mana_region_of_screen_size]
  from th n f have c: "current_mana (analyze_mana scenario_cv initial_vision ''mana40'') = 4"
    by blast
  from th have m: "max_mana (analyze_mana scenario_cv initial_vision ''mana40'') = 10"
    by blast
  from th have "mana_percentage (analyze_mana scenario_cv initial_vision ''mana40'') =
      real (mana_pixels scenario_cv initial_vision mana_screen)
        / real_of_int (total_pixels initial_vision) * 100"
    by blast
  then have q: "mana_percentage (analyze_mana scenario_cv initial_vision ''mana40'') = 40"
    unfolding p .
  from th have "mana_confidence (analyze_mana scenario_cv initial_vision ''mana40'') =
      min (mana_percentage (analyze_mana scenario_cv initial_vision ''mana40'') / 50) 1"
    by blast
  then have k: "mana_confidence (analyze_mana scenario_cv initial_vision ''mana40'') = 4 / 5"
    unfolding q by simp
  from mana_payload mana_region_of_screen_size n f c m q k show ?thesis
    by blast
qed

lemma clipped_payload: "base64_to_image scenario_cv ''clipped'' = Inr clipped_screen"
  by (simp add: base64_to_image_def scenario_cv_def)

lemma mana_region_of_clipped:
  "mana_region initial_vision clipped_screen =
     replicate 10 (replicate 20 (255, 64, 0) @ replicate 30 (0, 0, 0))"
  by (simp add: mana_region_def initial_vision_def clipped_screen_def region_def
        slice_def bound_def Let_def)

lemma mana_pixels_of_clipped: "mana_pixels scenario_cv initial_vision clipped_screen = 200"
  unfolding mana_pixels_def mana_region_of_clipped
  by (simp add: scenario_cv_def initial_vision_def inRange_def filter_concat
        length_concat_replicate)

text \<open>
  Claim C8, as stated, maps the matched fraction of the region.  On a screen
  smaller than the bar of the service the region is cut to 500 pixels; 200 of
  them match, exactly 40 percent, and the current mana is 0, not 4: the code
  divides by the 6000 pixels of the configured area.
\<close>

theorem analyze_mana_clipped_region:
  "base64_to_image scenario_cv ''clipped'' = Inr clipped_screen
   \<and> length (concat (mana_region initial_vision clipped_screen)) = 500
   \<and> mana_pixels scenario_cv initial_vision clipped_screen = 200
   \<and> real (mana_pixels scenario_cv initial_vision clipped_screen)
        / real (length (concat (mana_region initial_vision clipped_screen))) = 2 / 5
   \<and> max_mana (analyze_mana scenario_cv initial_vision ''clipped'') = 10
   \<and> current_mana (analyze_mana scenario_cv initial_vision ''clipped'') = 0"
proof -
  have n: "length (concat (mana_region initial_vision clipped_screen)) = 500"
    unfolding mana_region_of_clipped by (simp add: length_concat_replicate)
  have s: "size_of (mana_region initial_vision clipped_screen) \<noteq> 0"
    unfolding mana_region_of_clipped by (simp add: size_of_def height_def width_replicate)
  have c: "current_mana (analyze_mana scenario_cv initial_vision ''clipped'') = 0"
    using s by (simp add: analyze_mana_def clipped_payload total_pixels_initial
                  mana_pixels_of_clipped Let_def to_int_def)
  have m: "max_mana (analyze_mana scenario_cv initial_vision ''clipped'') = 10"
    using s by (simp add: analyze_mana_def clipped_payload total_pixels_initial Let_def)
  show ?thesis
    using clipped_payload n c m by (simp add: mana_pixels_of_clipped)
qed

subsection \<open>The cells of the grid\<close>

lemma collect_length: "collect rs = Inr vs \<Longrightarrow> length vs = length rs"
proof (induction rs arbitrary: vs)
  case Nil
  then show ?case by simp
next
  case (Cons r rs)
  then show ?case
    by (cases r) (auto split: sum.splits)
qed

lemma collect_members: "collect rs = Inr vs \<Longrightarrow> v \<in> set vs \<Longrightarrow> Inr v \<in> set rs"
proof (induction rs arbitrary: vs)
  case Nil
  then show ?case by simp
next
  case (Cons r rs)
  then show ?case
    by (cases r) (auto split: sum.splits)
qed

lemma length_grid: "length (concat (map (\<lambda>row. map (f row) [0 ..< c]) [0 ..< r])) = r * c"
  by (induction r) simp_all

lemma min_of_Min: "xs \<noteq> [] \<Longrightarrow> min_of xs = Min (set xs)"
  by (cases xs) (simp_all add: min_of_def Min.set_eq_fold [symmetric])

lemma sqdist_nonneg: "0 \<le> sqdist a b"
  by (cases a; cases b) (simp add: sqdist_def)

lemma min_mse_nonneg: "refs \<noteq> [] \<Longrightarrow> 0 \<le> min_of (mse_of refs c)"
  by (simp add: min_of_Min mse_of_def sqdist_nonneg)

lemma match_colors_nonneg:
  "ref_colors svc \<noteq> [] \<Longrightarrow> match_colors svc cs = Inr (u, d) \<Longrightarrow> 0 \<le> d"
proof (induction cs)
  case Nil
  then show ?case by simp
next
  case (Cons c cs)
  then show ?case
    using min_mse_nonneg [of "ref_colors svc" c]
    by (auto simp: Let_def split: if_splits)
qed

lemma match_unit_nonneg: "match_unit svc img = Inr (u, d) \<Longrightarrow> 0 \<le> d"
  using match_colors_nonneg [of svc _ u d]
  by (auto simp: match_unit_def split: if_splits sum.splits)

lemma template_step_bounds:
  assumes "\<forall>c t. matchTemplate cv c t \<le> 1" and "0 \<le> snd acc" and "snd acc \<le> 1"
  shows "0 \<le> snd (template_step cv cell t acc) \<and> snd (template_step cv cell t acc) \<le> 1"
  using assms by (cases t; cases acc) (auto simp: template_step_def Let_def)

lemma fold_template_step_bounds:
  assumes "\<forall>c t. matchTemplate cv c t \<le> 1"
  shows "0 \<le> snd acc \<Longrightarrow> snd acc \<le> 1 \<Longrightarrow>
         0 \<le> snd (fold (template_step cv cell) ts acc)
         \<and> snd (fold (template_step cv cell) ts acc) \<le> 1"
proof (induction ts arbitrary: acc)
  case Nil
  then show ?case by simp
next
  case (Cons t ts)
  have "0 \<le> snd (template_step cv cell t acc) \<and> snd (template_step cv cell t acc) \<le> 1"
    using assms Cons.prems by (rule template_step_bounds)
  then show ?case using Cons.IH by simp
qed

lemma best_template_bounds:
  "\<forall>c t. matchTemplate cv c t \<le> 1 \<Longrightarrow>
   0 \<le> snd (best_template cv cell ts) \<and> snd (best_template cv cell ts) \<le> 1"
  unfolding best_template_def by (rule fold_template_step_bounds) simp_all

lemma template_fallback_bounds:
  assumes "\<forall>c t. matchTemplate cv c t \<le> 1"
  shows "0 \<le> snd (snd (template_fallback cv svc cell)) \<and> snd (snd (template_fallback cv svc cell)) \<le> 1"
  using best_template_bounds [OF assms, of cell "templates svc"]
  by (auto simp: template_fallback_def split: prod.splits option.splits)

lemma analyze_cell_bounds:
  assumes "\<forall>c t. matchTemplate cv c t \<le> 1" and "analyze_cell cv svc cell = Inr (occ, ct, conf)"
  shows "0 \<le> conf \<and> conf \<le> 1"
  using assms(2) template_fallback_bounds [OF assms(1), of svc cell] match_unit_nonneg [of svc cell]
  by (auto simp: analyze_cell_def split: if_splits sum.splits prod.splits)


lemma cell_at_bounds:
  assumes "\<forall>c t. matchTemplate cv c t \<le> 1" and "cell_at cv svc img row col = Inr c"
  shows "0 \<le> confidence c \<and> confidence c \<le> 1"
proof -
  let ?g = "grid svc"
  let ?x = "grid_start_x ?g + col * (cell_width ?g + cell_spacing ?g)"
  let ?y = "grid_start_y ?g + row * (cell_height ?g + cell_spacing ?g)"
  let ?cell = "region ?y (?y + cell_height ?g) ?x (?x + cell_width ?g) img"
  obtain occ ct conf where a: "analyze_cell cv svc ?cell = Inr (occ, ct, conf)"
    and c: "confidence c = conf"
    using assms(2) by (auto simp: cell_at_def Let_def split: sum.splits)
  show ?thesis
    unfolding c using assms(1) a by (rule analyze_cell_bounds)
qed

lemma grid_cells_bounds:
  assumes "\<forall>c t. matchTemplate cv c t \<le> 1" and "grid_cells cv svc img = Inr cs"
    and "c \<in> set cs"
  shows "0 \<le> confidence c \<and> confidence c \<le> 1"
proof -
  have "Inr c \<in> set (concat (map (\<lambda>row. map (\<lambda>col. cell_at cv svc img (int row) (int col))
                                       [0 ..< nat (cols (grid svc))])
                          [0 ..< nat (rows (grid svc))]))"
    using assms(2,3) unfolding grid_cells_def by (rule collect_members)
  then obtain row col where "cell_at cv svc img row col = Inr c"
    by auto
  with assms(1) show ?thesis by (rule cell_at_bounds)
qed

lemma grid_cells_length:
  "grid_cells cv svc img = Inr cs \<Longrightarrow> length cs = nat (rows (grid svc)) * nat (cols (grid svc))"
  unfolding grid_cells_def by (drule collect_length) (simp add: length_grid)

text \<open>
  Claim C1, amended.  When the image decodes and every cell is analysed
  without an exception, the analysis holds one cell for each of the rows times
  cols slots of the grid (rows and cols counted from 0 upwards), and every
  cell's confidence lies between 0 and 1, given that the template scores of
  the library are at most 1.
\<close>

theorem analyze_grid_cell_count:
  assumes "base64_to_image cv s = Inr img" and "grid_cells cv svc img = Inr cs"
    and "\<forall>c t. matchTemplate cv c t \<le> 1"
  shows "length (cells (analyze_grid cv svc s)) = nat (rows (grid svc)) * nat (cols (grid svc))
    \<and> (\<forall>c \<in> set (cells (analyze_grid cv svc s)). 0 \<le> confidence c \<and> confidence c \<le> 1)"
proof -
  have eq: "cells (analyze_grid cv svc s) = cs"
    using assms(1,2) by (simp add: analyze_grid_def)
  show ?thesis
    unfolding eq using grid_cells_length [OF assms(2)] grid_cells_bounds [OF assms(3,2)] by blast
qed

text \<open>An exception in the analysis of a cell ends in the empty analysis as
  well.\<close>

lemma analyze_grid_exception_gives_empty:
  "base64_to_image cv s = Inr img \<Longrightarrow> grid_cells cv svc img = Inl e \<Longrightarrow>
   analyze_grid cv svc s = empty_analysis"
  by (simp add: analyze_grid_def)

text \<open>
  Claim C1, as stated, covers images that fail to decode.  With the grid of 4
  rows and 4 columns of the service, the analysis of a payload that does not
  decode has no cell at all, not 16.
\<close>

theorem analyze_grid_undecodable_has_no_cells:
  "base64_to_image scenario_cv ''corrupt'' = Inl DecodeError
   \<and> rows (grid initial_vision) = 4 \<and> cols (grid initial_vision) = 4
   \<and> cells (analyze_grid scenario_cv initial_vision ''corrupt'') = []
   \<and> length (cells (analyze_grid scenario_cv initial_vision ''corrupt'')) \<noteq> 4 * 4"
  by (simp add: analyze_grid_def base64_to_image_def scenario_cv_def initial_vision_def
        empty_analysis_def)

text \<open>The board of the scenarios: six cells, the grey ones reported as unknown
  with confidence 0.5, the black ones as empty with confidence 0.1.\<close>

lemma board_payload: "base64_to_image scenario_cv ''board'' = Inr board"
  by (simp add: base64_to_image_def scenario_cv_def)

lemma sum_list_concat_replicate:
  "sum_list (map f (concat (replicate n (replicate m x)))) = n * m * f x"
  by (induction n) (simp_all add: sum_list_replicate algebra_simps)

lemma board_regions:
  "region 1 3 1 3 board = replicate 2 (replicate 2 (100, 100, 100))"
  "region 1 3 4 6 board = replicate 2 (replicate 2 (0, 0, 0))"
  "region 1 3 7 9 board = replicate 2 (replicate 2 (0, 0, 0))"
  "region 4 6 1 3 board = replicate 2 (replicate 2 (100, 100, 100))"
  "region 4 6 4 6 board = replicate 2 (replicate 2 (0, 0, 0))"
  "region 4 6 7 9 board = replicate 2 (replicate 2 (0, 0, 0))"
  by (simp_all add: board_def region_def slice_def bound_def)

lemma analyze_grey:
  "analyze_cell scenario_cv small_vision (replicate 2 (replicate 2 (100, 100, 100)))
    = Inr (True, Some ''unknown'', 1 / 2)"
  by (simp add: analyze_cell_def small_vision_def initial_vision_def size_of_def height_def
        width_replicate mean_brightness_def scenario_cv_def luma_def template_fallback_def
        best_template_def length_concat_replicate sum_list_concat_replicate)

lemma analyze_black:
  "analyze_cell scenario_cv small_vision (replicate 2 (replicate 2 (0, 0, 0)))
    = Inr (False, None, 1 / 10)"
  by (simp add: analyze_cell_def small_vision_def initial_vision_def size_of_def height_def
        width_replicate mean_brightness_def scenario_cv_def luma_def
        length_concat_replicate sum_list_concat_replicate)

lemma upt_2: "[0 ..< 2] = [0, 1]"
  by (simp add: upt_rec)

lemma upt_3: "[0 ..< 3] = [0, 1, 2]"
  by (simp add: upt_rec)

lemma board_cells:
  "grid_cells scenario_cv small_vision board =
     Inr (map (\<lambda>(x, y, occ, ct, conf).
                 \<lparr>cell_x = x, cell_y = y, cell_w = 2, cell_h = 2, occupied = occ,
                  card_type = ct, confidence = conf\<rparr>)
       [(1, 1, True, Some ''unknown'', 1 / 2), (4, 1, False, None, 1 / 10),
        (7, 1, False, None, 1 / 10), (1, 4, True, Some ''unknown'', 1 / 2),
        (4, 4, False, None, 1 / 10), (7, 4, False, None, 1 / 10)])"
proof -
  have g: "grid small_vision = \<lparr>rows = 2, cols = 3, cell_width = 2, cell_height = 2,
                               grid_start_x = 1, grid_start_y = 1, cell_spacing = 1\<rparr>"
    by (simp add: small_vision_def)
  show ?thesis
    unfolding grid_cells_def cell_at_def g Let_def
    by (simp add: upt_2 upt_3 board_regions analyze_grey analyze_black)
qed

lemma scenario_scores: "\<forall>c t. matchTemplate scenario_cv c t \<le> 1"
  by (simp add: scenario_cv_def)

lemma board_analysis_cells:
  "cells (analyze_grid scenario_cv small_vision ''board'') =
     map (\<lambda>(x, y, occ, ct, conf).
            \<lparr>cell_x = x, cell_y = y, cell_w = 2, cell_h = 2, occupied = occ,
             card_type = ct, confidence = conf\<rparr>)
       [(1, 1, True, Some ''unknown'', 1 / 2), (4, 1, False, None, 1 / 10),
        (7, 1, False, None, 1 / 10), (1, 4, True, Some ''unknown'', 1 / 2),
        (4, 4, False, None, 1 / 10), (7, 4, False, None, 1 / 10)]"
  by (simp add: analyze_grid_def board_payload board_cells)

theorem analyze_grid_cell_count_witness:
  "base64_to_image scenario_cv ''board'' = Inr board
   \<and> \<not> isl (grid_cells scenario_cv small_vision board)
   \<and> (\<forall>c t. matchTemplate scenario_cv c t \<le> 1)
   \<and> length (cells (analyze_grid scenario_cv small_vision ''board'')) = 2 * 3
   \<and> map confidence (cells (analyze_grid scenario_cv small_vision ''board''))
       = [1 / 2, 1 / 10, 1 / 10, 1 / 2, 1 / 10, 1 / 10]"
proof -
  have r: "\<not> isl (grid_cells scenario_cv small_vision board)"
    by (simp add: board_cells)
  have m: "map confidence (cells (analyze_grid scenario_cv small_vision ''board''))
       = [1 / 2, 1 / 10, 1 / 10, 1 / 2, 1 / 10, 1 / 10]"
    unfolding board_analysis_cells by simp
  have "length (cells (analyze_grid scenario_cv small_vision ''board'')) = 2 * 3"
    using analyze_grid_cell_count [OF board_payload board_cells scenario_scores]
    by (simp add: small_vision_def)
  with r m board_payload scenario_scores show ?thesis
    by blast
qed

subsection \<open>The colour signature of a cell\<close>

lemma first_index_less: "v \<in> set xs \<Longrightarrow> first_index xs v < length xs"
  unfolding first_index_def by (induction xs) auto

lemma nth_first_index: "v \<in> set xs \<Longrightarrow> xs ! first_index xs v = v"
  unfolding first_index_def by (induction xs) auto

lemma min_of_in: "xs \<noteq> [] \<Longrightarrow> min_of xs \<in> set xs"
  by (simp add: min_of_Min)

lemma argmin_less: "xs \<noteq> [] \<Longrightarrow> argmin xs < length xs"
  unfolding argmin_def by (rule first_index_less) (rule min_of_in)

lemma nth_argmin: "xs \<noteq> [] \<Longrightarrow> xs ! argmin xs = min_of xs"
  unfolding argmin_def by (rule nth_first_index) (rule min_of_in)

lemma match_colors_first:
  assumes "ref_colors svc \<noteq> []" and "length (ref_units svc) = length (ref_colors svc)"
    and "\<forall>c' \<in> set pre. 2000 < min_of (mse_of (ref_colors svc) c')"
    and "min_of (mse_of (ref_colors svc) c) \<le> 2000"
  shows "match_colors svc (pre @ c # post) =
           Inr (ref_units svc ! argmin (mse_of (ref_colors svc) c),
                real_of_int (min_of (mse_of (ref_colors svc) c)))"
  using assms(3)
proof (induction pre)
  case Nil
  have "argmin (mse_of (ref_colors svc) c) < length (mse_of (ref_colors svc) c)"
    using assms(1) by (intro argmin_less) (simp add: mse_of_def)
  then have "argmin (mse_of (ref_colors svc) c) < length (ref_units svc)"
    using assms(2) by (simp add: mse_of_def)
  then show ?case using assms(4) by (simp add: Let_def)
next
  case (Cons p pre)
  then show ?case by (simp add: Let_def)
qed

text \<open>
  Claim C4, amended.  For a cell that reaches the colour matching (it is not
  empty, its brightness lies in [30, 220], the reference table is loaded), the
  match is decided by the first colour of the signature, in the order in which
  the extraction returns them, whose smallest squared distance to the
  reference colours is at most 2000: the cell is reported occupied, named
  after the reference nearest to that colour (unless that label is
  \<^verbatim>\<open>empty.png\<close>), with confidence max(0.1, 1 - d/2000) for that colour's
  smallest distance d.
\<close>

theorem analyze_cell_first_color_within_threshold:
  assumes "size_of cell \<noteq> 0"
    and "30 \<le> mean_brightness cv cell" and "mean_brightness cv cell \<le> 220"
    and "ref_colors svc \<noteq> []" and "length (ref_units svc) = length (ref_colors svc)"
    and "get_color cell True = Inr (pre @ c # post)"
    and "\<forall>c' \<in> set pre. 2000 < min_of (mse_of (ref_colors svc) c')"
    and "min_of (mse_of (ref_colors svc) c) \<le> 2000"
    and "ref_units svc ! argmin (mse_of (ref_colors svc) c) \<noteq> ''empty.png''"
  shows "analyze_cell cv svc cell =
           Inr (True,
                Some (unit_name (ref_units svc ! argmin (mse_of (ref_colors svc) c))
                        (match_rank cv svc cell)),
                max 0.1 (1 - real_of_int (min_of (mse_of (ref_colors svc) c)) / 2000))
         \<and> min_of (mse_of (ref_colors svc) c) = Min ((\<lambda>r. sqdist r c) ` set (ref_colors svc))
         \<and> sqdist (ref_colors svc ! argmin (mse_of (ref_colors svc) c)) c
             = min_of (mse_of (ref_colors svc) c)"
proof -
  let ?mse = "mse_of (ref_colors svc) c"
  have ne: "?mse \<noteq> []" using assms(4) by (simp add: mse_of_def)
  have units: "ref_units svc \<noteq> []" using assms(4,5) by auto
  have mu: "match_unit svc cell = Inr (ref_units svc ! argmin ?mse, real_of_int (min_of ?mse))"
    using assms(4) units assms(6) match_colors_first [OF assms(4,5,7,8)]
    by (simp add: match_unit_def)
  have a: "analyze_cell cv svc cell =
           Inr (True, Some (unit_name (ref_units svc ! argmin ?mse) (match_rank cv svc cell)),
                max 0.1 (1 - real_of_int (min_of ?mse) / 2000))"
    using assms(1,2,3,4,8,9) units mu by (simp add: analyze_cell_def)
  have b: "min_of ?mse = Min ((\<lambda>r. sqdist r c) ` set (ref_colors svc))"
    using min_of_Min [OF ne] by (simp add: mse_of_def)
  have "?mse ! argmin ?mse = min_of ?mse" using ne by (rule nth_argmin)
  moreover have "argmin ?mse < length (ref_colors svc)"
    using argmin_less [OF ne] by (simp add: mse_of_def)
  ultimately have c: "sqdist (ref_colors svc ! argmin ?mse) c = min_of ?mse"
    by (simp add: mse_of_def)
  from a b c show ?thesis by blast
qed

lemma length_unique: "length (unique xs) = card (set xs)"
  by (simp add: unique_def length_remdups_card_conv)

lemma fold_update_length: "length (fold (\<lambda>i cs. cs[i := f i]) is cs) = length cs"
  by (induction "is" arbitrary: cs) simp_all

lemma get_color_five:
  assumes "size_of (cropped img crop) \<noteq> 0"
  shows "\<exists>cs. get_color img crop = Inr cs \<and> length cs = 5"
  using assms by (simp add: get_color_def Let_def fold_update_length)

lemma get_color_few:
  assumes "size_of (cropped img crop) \<noteq> 0"
    and "card (set (flat_img_round (cropped img crop))) < 10"
  shows "get_color img crop = Inr (replicate 5 (0, 0, 0))"
  using assms by (simp add: get_color_def Let_def length_unique)

lemma match_colors_black:
  assumes "ref_colors svc \<noteq> []" and "\<forall>r \<in> set (ref_colors svc). 2000 < sqdist r (0, 0, 0)"
  shows "match_colors svc (replicate n (0, 0, 0)) = Inr (''empty.png'', 2001)"
proof -
  have "2000 < min_of (mse_of (ref_colors svc) (0, 0, 0))"
    using assms by (simp add: min_of_Min mse_of_def)
  then show ?thesis by (induction n) (simp_all add: Let_def)
qed

text \<open>
  Claim C10, amended.  Whenever the part of the image that the extraction
  looks at is not empty, it returns exactly five colours; when that part has
  fewer than 10 distinct rounded colours, all five are (0, 0, 0); and then a
  cell that reaches the colour matching, with no reference colour within
  squared distance 2000 of black, is matched to nothing and is decided by the
  template path or reported as unknown.
\<close>

theorem get_color_returns_five_colors:
  "(size_of (cropped img crop) \<noteq> 0 \<longrightarrow>
      (\<exists>cs. get_color img crop = Inr cs \<and> length cs = 5))
   \<and> (size_of (cropped img crop) \<noteq> 0
        \<and> card (set (flat_img_round (cropped img crop))) < 10 \<longrightarrow>
      get_color img crop = Inr (replicate 5 (0, 0, 0)))
   \<and> (size_of (cropped img True) \<noteq> 0
        \<and> card (set (flat_img_round (cropped img True))) < 10
        \<and> ref_units svc \<noteq> [] \<and> ref_colors svc \<noteq> []
        \<and> (\<forall>r \<in> set (ref_colors svc). 2000 < sqdist r (0, 0, 0))
        \<and> size_of img \<noteq> 0 \<and> 30 \<le> mean_brightness cv img \<and> mean_brightness cv img \<le> 220 \<longrightarrow>
      match_unit svc img = Inr (''empty.png'', 2001)
      \<and> analyze_cell cv svc img = Inr (template_fallback cv svc img))"
proof (intro conjI impI)
  assume "size_of (cropped img crop) \<noteq> 0"
  then show "\<exists>cs. get_color img crop = Inr cs \<and> length cs = 5" by (rule get_color_five)
next
  assume "size_of (cropped img crop) \<noteq> 0 \<and> card (set (flat_img_round (cropped img crop))) < 10"
  then show "get_color img crop = Inr (replicate 5 (0, 0, 0))" by (simp add: get_color_few)
next
  assume h: "size_of (cropped img True) \<noteq> 0
        \<and> card (set (flat_img_round (cropped img True))) < 10
        \<and> ref_units svc \<noteq> [] \<and> ref_colors svc \<noteq> []
        \<and> (\<forall>r \<in> set (ref_colors svc). 2000 < sqdist r (0, 0, 0))
        \<and> size_of img \<noteq> 0 \<and> 30 \<le> mean_brightness cv img \<and> mean_brightness cv img \<le> 220"
  then have g: "get_color img True = Inr (replicate 5 (0, 0, 0))" by (simp add: get_color_few)
  show mu: "match_unit svc img = Inr (''empty.png'', 2001)"
    using h g match_colors_black [of svc 5] by (simp add: match_unit_def)
  show "analyze_cell cv svc img = Inr (template_fallback cv svc img)"
    using h mu by (simp add: analyze_cell_def)
qed

lemma width_replicate_append: "0 < n \<Longrightarrow> width (replicate n r @ rest) = length r"
  by (cases n) (simp_all add: width_def)

lemma unit_cell_dims: "height unit_cell = 34" "width unit_cell = 38"
  by (simp_all add: unit_cell_def height_def width_replicate_append)

lemma unit_cell_cropped:
  "cropped unit_cell True =
     [[grey, grey, grey, grey],
      [(40, 40, 200), (40, 40, 200), (40, 40, 200), (0, 0, 0)],
      [(0, 0, 20), (0, 0, 40), (0, 0, 60), (0, 20, 0)],
      [(0, 40, 0), (0, 60, 0), (20, 0, 0), (40, 0, 0)]]"
  unfolding cropped_def unit_cell_dims
  by (simp add: region_def slice_def bound_def unit_cell_def)

lemma tiny_cropped: "cropped tiny_cell True = []"
  by (simp add: cropped_def tiny_cell_def height_def width_replicate region_def slice_def bound_def)

lemma tiny_get_color: "get_color tiny_cell True = Inl Cv2Error"
  by (simp add: get_color_def tiny_cropped size_of_def height_def)

lemma unit_get_color:
  "get_color unit_cell True = Inr [(100, 100, 100), (200, 40, 40), (0, 0, 0), (0, 0, 0), (0, 0, 0)]"
  unfolding get_color_def unit_cell_cropped
  by code_simp

lemma unit_cell_size: "size_of unit_cell \<noteq> 0"
  by (simp add: size_of_def unit_cell_dims)

lemma luma_grey: "luma grey = 100"
  by (simp add: luma_def grey_def)

lemma unit_cell_brightness: "mean_brightness scenario_cv unit_cell = 128377 / 1292"
  by (simp add: mean_brightness_def unit_cell_def scenario_cv_def sum_list_concat_replicate
        length_concat_replicate sum_list_replicate luma_grey)
     (simp add: luma_def)

lemma unit_refs:
  "ref_colors unit_vision = [(130, 120, 110), (200, 40, 40)]"
  "ref_units unit_vision = [''archer.png'', ''mage.png'']"
  "rank_model unit_vision = False"
  "templates unit_vision = []"
  by (simp_all add: unit_vision_def initial_vision_def)

lemma unit_mse:
  "mse_of [(130, 120, 110), (200, 40, 40)] (100, 100, 100) = [1400, 17200]"
  "mse_of [(130, 120, 110), (200, 40, 40)] (200, 40, 40) = [16200, 0]"
  "mse_of [(130, 120, 110), (200, 40, 40)] (0, 0, 0) = [43400, 43200]"
  by (simp_all add: mse_of_def sqdist_def)

lemma unit_min:
  "min_of [1400, 17200] = 1400" "argmin [1400, 17200] = 0"
  "min_of [16200, 0] = 0" "argmin [16200, 0] = 1"
  "min_of [43400, 43200] = 43200"
  by (simp_all add: min_of_def argmin_def first_index_def)

lemma archer_name: "unit_name ''archer.png'' (0, 0) = ''archer''"
  by (simp add: unit_name_def)

theorem analyze_cell_first_color_within_threshold_witness:
  "size_of unit_cell \<noteq> 0
   \<and> 30 \<le> mean_brightness scenario_cv unit_cell \<and> mean_brightness scenario_cv unit_cell \<le> 220
   \<and> ref_colors unit_vision \<noteq> []
   \<and> length (ref_units unit_vision) = length (ref_colors unit_vision)
   \<and> get_color unit_cell True =
        Inr ([] @ (100, 100, 100) # [(200, 40, 40), (0, 0, 0), (0, 0, 0), (0, 0, 0)])
   \<and> min_of (mse_of (ref_colors unit_vision) (100, 100, 100)) \<le> 2000
   \<and> ref_units unit_vision ! argmin (mse_of (ref_colors unit_vision) (100, 100, 100))
        \<noteq> ''empty.png''
   \<and> analyze_cell scenario_cv unit_vision unit_cell = Inr (True, Some ''archer'', 3 / 10)"
proof -
  have b: "30 \<le> mean_brightness scenario_cv unit_cell"
    "mean_brightness scenario_cv unit_cell \<le> 220"
    by (simp_all add: unit_cell_brightness)
  have r: "ref_colors unit_vision \<noteq> []"
    "length (ref_units unit_vision) = length (ref_colors unit_vision)"
    by (simp_all add: unit_refs)
  have g: "get_color unit_cell True =
        Inr ([] @ (100, 100, 100) # [(200, 40, 40), (0, 0, 0), (0, 0, 0), (0, 0, 0)])"
    by (simp add: unit_get_color)
  have p: "\<forall>c' \<in> set []. 2000 < min_of (mse_of (ref_colors unit_vision) c')"
    by simp
  have m: "min_of (mse_of (ref_colors unit_vision) (100, 100, 100)) \<le> 2000"
    by (simp add: unit_refs unit_mse unit_min)
  have n: "ref_units unit_vision ! argmin (mse_of (ref_colors unit_vision) (100, 100, 100))
        \<noteq> ''empty.png''"
    by (simp add: unit_refs unit_mse unit_min)
  have "analyze_cell scenario_cv unit_vision unit_cell = Inr (True, Some ''archer'', 3 / 10)"
    using analyze_cell_first_color_within_threshold
            [OF unit_cell_size b r g p m n]
    by (simp add: unit_mse unit_min unit_refs match_rank_def archer_name)
  with unit_cell_size b r g m n show ?thesis by blast
qed

text \<open>
  Claim C4, as stated, takes the minimum over all five colours.  In this cell
  the most frequent colour is at distance 1400 from the archer and the second
  colour at distance 0 from the mage: the smallest distance of all is 0, for
  the mage, yet the cell is reported as the archer with confidence 0.3.
\<close>

theorem analyze_cell_not_global_minimum:
  "get_color unit_cell True =
     Inr [(100, 100, 100), (200, 40, 40), (0, 0, 0), (0, 0, 0), (0, 0, 0)]
   \<and> ref_units unit_vision = [''archer.png'', ''mage.png'']
   \<and> map (mse_of (ref_colors unit_vision))
        [(100, 100, 100), (200, 40, 40), (0, 0, 0), (0, 0, 0), (0, 0, 0)]
      = [[1400, 17200], [16200, 0], [43400, 43200], [43400, 43200], [43400, 43200]]
   \<and> analyze_cell scenario_cv unit_vision unit_cell = Inr (True, Some ''archer'', 3 / 10)
   \<and> analyze_cell scenario_cv unit_vision unit_cell \<noteq> Inr (True, Some ''mage'', max 0.1 (1 - 0 / 2000))"
proof -
  have a: "analyze_cell scenario_cv unit_vision unit_cell = Inr (True, Some ''archer'', 3 / 10)"
    using unit_cell_size
    by (simp add: analyze_cell_def unit_cell_brightness unit_refs match_unit_def unit_get_color
          unit_mse unit_min Let_def match_rank_def archer_name)
  show ?thesis
    unfolding a by (simp add: unit_get_color unit_refs unit_mse)
qed

lemma plain_cropped: "cropped plain_cell True = replicate 4 (replicate 4 grey)"
  by (simp add: cropped_def plain_cell_def height_def width_replicate region_def slice_def bound_def)

lemma plain_flat: "set (flat_img_round (replicate 4 (replicate 4 grey))) = {(100, 100, 100)}"
  by (auto simp: flat_img_round_def grey_def)

theorem get_color_returns_five_colors_witness:
  "size_of (cropped plain_cell True) \<noteq> 0
   \<and> card (set (flat_img_round (cropped plain_cell True))) < 10
   \<and> ref_units unit_vision \<noteq> [] \<and> ref_colors unit_vision \<noteq> []
   \<and> map (\<lambda>r. sqdist r (0, 0, 0)) (ref_colors unit_vision) = [43400, 43200]
   \<and> size_of plain_cell \<noteq> 0
   \<and> 30 \<le> mean_brightness scenario_cv plain_cell \<and> mean_brightness scenario_cv plain_cell \<le> 220
   \<and> get_color plain_cell True = Inr (replicate 5 (0, 0, 0))
   \<and> match_unit unit_vision plain_cell = Inr (''empty.png'', 2001)
   \<and> analyze_cell scenario_cv unit_vision plain_cell = Inr (True, Some ''unknown'', 1 / 2)"
proof -
  have s: "size_of (cropped plain_cell True) \<noteq> 0"
    unfolding plain_cropped by (simp add: size_of_def height_def width_replicate)
  have c: "card (set (flat_img_round (cropped plain_cell True))) < 10"
    unfolding plain_cropped plain_flat by simp
  have r: "ref_units unit_vision \<noteq> []" "ref_colors unit_vision \<noteq> []"
    "\<forall>r \<in> set (ref_colors unit_vision). 2000 < sqdist r (0, 0, 0)"
    "map (\<lambda>r. sqdist r (0, 0, 0)) (ref_colors unit_vision) = [43400, 43200]"
    by (simp_all add: unit_refs sqdist_def)
  have p: "size_of plain_cell \<noteq> 0"
    by (simp add: plain_cell_def size_of_def height_def width_replicate)
  have m: "mean_brightness scenario_cv plain_cell = 100"
    by (simp add: mean_brightness_def plain_cell_def scenario_cv_def sum_list_concat_replicate
          length_concat_replicate luma_grey)
  have t: "template_fallback scenario_cv unit_vision plain_cell = (True, Some ''unknown'', 1 / 2)"
    by (simp add: template_fallback_def best_template_def unit_refs)
  show ?thesis
    using get_color_returns_five_colors [of plain_cell True unit_vision scenario_cv] s c r p m t
    by simp
qed

text \<open>
  Claim C10, as stated, covers every image.  For a cell of 20 by 20 pixels the
  crop is empty and the extraction raises instead of returning five colours.
\<close>

theorem get_color_fails_on_small_image:
  "size_of tiny_cell \<noteq> 0
   \<and> cropped tiny_cell True = []
   \<and> get_color tiny_cell True = Inl Cv2Error
   \<and> (\<forall>cs. get_color tiny_cell True \<noteq> Inr cs)"
proof -
  have "size_of tiny_cell \<noteq> 0"
    by (simp add: tiny_cell_def size_of_def height_def width_replicate)
  with tiny_get_color tiny_cropped show ?thesis by simp
qed

end
